theory Spec2Isabelle
  imports Main
begin

section \<open>JavaScript values\<close>

text \<open>
  The values that \<^verbatim>\<open>backend/index.js\<close> handles are what \<^verbatim>\<open>JSON.parse\<close> produces
  (request bodies, upstream response bodies, the verified session payload), together
  with \<^verbatim>\<open>undefined\<close>, the result of reading a property that is not there.
  Numbers are modelled as the integers: \<^verbatim>\<open>Date.now()\<close> and every number of the
  demo data are integers. A number held by a value is one the program can hold, a double.
\<close>

datatype json =
    JUndefined
  | JNull
  | JBool bool
  | JNum int
  | JStr string
  | JArr "json list"
  | JObj "(string \<times> json) list"

text \<open>What a \<^verbatim>\<open>throw\<close> carries, or a rejected promise.\<close>

datatype exn =
    TypeError
  | FetchError
  | InvalidJson
  | JwtError string
  | Error string

text \<open>
  JavaScript truthiness, as \<^verbatim>\<open>!x\<close>, \<^verbatim>\<open>x && y\<close>, \<^verbatim>\<open>x || y\<close> and \<^verbatim>\<open>x ? y : z\<close> test
  it: \<^verbatim>\<open>undefined\<close>, \<^verbatim>\<open>null\<close>, \<^verbatim>\<open>false\<close>, \<^verbatim>\<open>0\<close> and the empty string are falsy,
  every array and object is truthy.
\<close>

fun truthy :: "json \<Rightarrow> bool" where
  "truthy JUndefined = False"
| "truthy JNull = False"
| "truthy (JBool b) = b"
| "truthy (JNum n) = (n \<noteq> 0)"
| "truthy (JStr s) = (s \<noteq> [])"
| "truthy (JArr xs) = True"
| "truthy (JObj kvs) = True"

text \<open>
  \<^verbatim>\<open>v.k\<close> for a key \<open>k\<close> that is no built-in property: reading a property of
  \<^verbatim>\<open>undefined\<close> or \<^verbatim>\<open>null\<close> throws a TypeError; an object gives the value stored
  under the key (the last one, where \<^verbatim>\<open>JSON.parse\<close> met the key twice) or
  \<^verbatim>\<open>undefined\<close>; \<^verbatim>\<open>length\<close> is the one built-in property the program reads, of an
  array or a string; every other read gives \<^verbatim>\<open>undefined\<close>.
\<close>

fun get_prop :: "json \<Rightarrow> string \<Rightarrow> exn + json" where
  "get_prop JUndefined k = Inl TypeError"
| "get_prop JNull k = Inl TypeError"
| "get_prop (JObj kvs) k =
     Inr (case map_of (rev kvs) k of None \<Rightarrow> JUndefined | Some v \<Rightarrow> v)"
| "get_prop (JArr xs) k =
     Inr (if k = ''length'' then JNum (int (length xs)) else JUndefined)"
| "get_prop (JStr s) k =
     Inr (if k = ''length'' then JNum (int (length s)) else JUndefined)"
| "get_prop (JBool b) k = Inr JUndefined"
| "get_prop (JNum n) k = Inr JUndefined"

text \<open>\<^verbatim>\<open>v[0]\<close>, with the same TypeError on \<^verbatim>\<open>undefined\<close> and \<^verbatim>\<open>null\<close>.\<close>

fun get_first :: "json \<Rightarrow> exn + json" where
  "get_first JUndefined = Inl TypeError"
| "get_first JNull = Inl TypeError"
| "get_first (JArr xs) = Inr (case xs of [] \<Rightarrow> JUndefined | x # _ \<Rightarrow> x)"
| "get_first (JStr s) = Inr (case s of [] \<Rightarrow> JUndefined | c # _ \<Rightarrow> JStr [c])"
| "get_first (JObj kvs) =
     Inr (case map_of (rev kvs) ''0'' of None \<Rightarrow> JUndefined | Some v \<Rightarrow> v)"
| "get_first (JBool b) = Inr JUndefined"
| "get_first (JNum n) = Inr JUndefined"

text \<open>
  How a template literal prints an integer: in decimal, with a sign when negative (the
  exponent notation of numbers from \<open>10\<^sup>2\<^sup>1\<close> on is left out).
\<close>

definition digit :: "nat \<Rightarrow> char" where
  "digit d = char_of (d + 48)"

fun decimal :: "nat \<Rightarrow> string" where
  "decimal n = (if n < 10 then [digit n] else decimal (n div 10) @ [digit (n mod 10)])"

declare decimal.simps [simp del]

definition number_string :: "int \<Rightarrow> string" where
  "number_string i = (if 0 \<le> i then decimal (nat i) else CHR ''-'' # decimal (nat (- i)))"

fun join_comma :: "string list \<Rightarrow> string" where
  "join_comma [] = []"
| "join_comma [s] = s"
| "join_comma (s # t # ss) = s @ '','' @ join_comma (t # ss)"

text \<open>
  The string a template literal \<^verbatim>\<open>`${v}`\<close> puts in place of \<open>v\<close>: an array is
  its elements joined by commas, with \<^verbatim>\<open>null\<close> and \<^verbatim>\<open>undefined\<close> elements blank.
\<close>

fun to_string :: "json \<Rightarrow> string" where
  "to_string JUndefined = ''undefined''"
| "to_string JNull = ''null''"
| "to_string (JBool b) = (if b then ''true'' else ''false'')"
| "to_string (JNum n) = number_string n"
| "to_string (JStr s) = s"
| "to_string (JArr xs) =
     join_comma (map (\<lambda>x. if x = JNull \<or> x = JUndefined then [] else to_string x) xs)"
| "to_string (JObj kvs) = ''[object Object]''"

section \<open>Configuration\<close>

text \<open>
  The environment variables the program reads; \<open>None\<close> is a variable that is not set.
  \<^verbatim>\<open>process.env.X || d\<close> takes the default for an unset and for an empty variable;
  a template literal prints an unset variable as \<^verbatim>\<open>undefined\<close>.
\<close>

record config =
  BC_TENANT_ID :: "string option"
  BC_CLIENT_ID :: "string option"
  BC_CLIENT_SECRET :: "string option"
  BC_ENV :: "string option"
  BC_COMPANY_ID :: "string option"
  env_BC_SCOPE :: "string option"
  env_JWT_SECRET :: "string option"
  BC_PORTAL_CUSTOMER_NO :: "string option"

definition env_or :: "string option \<Rightarrow> string \<Rightarrow> string" where
  "env_or v d = (case v of None \<Rightarrow> d | Some s \<Rightarrow> if s = [] then d else s)"

definition tmpl :: "string option \<Rightarrow> string" where
  "tmpl v = (case v of None \<Rightarrow> ''undefined'' | Some s \<Rightarrow> s)"

definition BC_SCOPE :: "config \<Rightarrow> string" where
  "BC_SCOPE cfg = env_or (env_BC_SCOPE cfg) ''https://api.businesscentral.dynamics.com/.default''"

definition JWT_SECRET :: "config \<Rightarrow> string" where
  "JWT_SECRET cfg = env_or (env_JWT_SECRET cfg) ''change-me''"

definition BC_BASE_URL :: "config \<Rightarrow> string" where
  "BC_BASE_URL cfg =
     ''https://api.businesscentral.dynamics.com/v2.0/'' @ tmpl (BC_TENANT_ID cfg) @ ''/''
       @ tmpl (BC_ENV cfg) @ ''/api/v2.0''"

definition COMPANY_URL :: "config \<Rightarrow> string" where
  "COMPANY_URL cfg = BC_BASE_URL cfg @ ''/companies('' @ tmpl (BC_COMPANY_ID cfg) @ '')''"

text \<open>The demo portal users.\<close>

record portal_user =
  id' :: int
  email :: string
  password :: string
  bcCustomerNo :: string

definition PORTAL_USERS :: "portal_user list" where
  "PORTAL_USERS =
     [\<lparr>id' = 1, email = ''Robertos-Rest'', password = ''Rest1234'',
        bcCustomerNo = ''CUST-00466''\<rparr>,
      \<lparr>id' = 2, email = ''Robertos-Roslyn'', password = ''Ros1234'',
        bcCustomerNo = ''CUST-00232''\<rparr>]"

section \<open>The process and what surrounds it\<close>

text \<open>
  An outbound request of \<^verbatim>\<open>fetch\<close>; \<open>JsonBody v\<close> stands for the body
  \<^verbatim>\<open>JSON.stringify(v)\<close>, \<open>Form\<close> for a \<^verbatim>\<open>URLSearchParams\<close> body.
\<close>

datatype payload = NoBody | Form "(string \<times> string) list" | JsonBody json

record request =
  http_method :: string
  url :: string
  headers :: "(string \<times> string) list"
  body :: payload

text \<open>
  What the program reads of a response: \<^verbatim>\<open>res.ok\<close>, \<^verbatim>\<open>await res.text()\<close> (taken
  to succeed always) and \<^verbatim>\<open>await res.json()\<close>, which rejects (\<open>None\<close>) when the body
  is not JSON.
\<close>

record response =
  res_ok :: bool
  res_text :: string
  res_json :: "json option"

datatype outcome = Rejected | Responded response

text \<open>
  Everything outside the program is a parameter: the remote services answer a request
  as a function of the requests sent before it; \<open>clock\<close> is the sequence of readings of
  the system clock; \<open>jwt_sign payload secret expiresIn\<close> and \<open>jwt_verify token secret\<close>
  are the jsonwebtoken library (verification throws on a bad signature and on an
  expired token); \<open>toISOString\<close> and \<open>string_to_number\<close> are the built-ins of the
  language (\<open>None\<close> is \<^verbatim>\<open>NaN\<close>).
\<close>

record env =
  upstream :: "request list \<Rightarrow> request \<Rightarrow> outcome"
  clock :: "nat \<Rightarrow> int"
  jwt_sign :: "json \<Rightarrow> string \<Rightarrow> string \<Rightarrow> string"
  jwt_verify :: "string \<Rightarrow> string \<Rightarrow> exn + json"
  toISOString :: "int \<Rightarrow> string"
  string_to_number :: "string \<Rightarrow> int option"

datatype logged = Text string | Shown json | Thrown exn

text \<open>
  The state of the process, one request being handled at a time: the two module
  variables of the token cache (\<open>None\<close> is \<^verbatim>\<open>NaN\<close>), and what it has done so far:
  the requests sent upstream, the lines written with \<^verbatim>\<open>console.error\<close>, and how often
  the clock was read.
\<close>

record world =
  cachedToken :: json
  cachedTokenExpiresAt :: "int option"
  sent :: "request list"
  console :: "logged list list"
  clock_reads :: nat

definition initial_world :: world where
  "initial_world =
     \<lparr>cachedToken = JNull, cachedTokenExpiresAt = Some 0, sent = [], console = [],
      clock_reads = 0\<rparr>"

text \<open>A step of the program: it changes the world and returns a value or throws.\<close>

type_synonym 'a js = "world \<Rightarrow> (exn + 'a) \<times> world"

definition return_js :: "'a \<Rightarrow> 'a js" where
  "return_js x w = (Inr x, w)"

definition throw_js :: "exn \<Rightarrow> 'a js" where
  "throw_js e w = (Inl e, w)"

definition lift_js :: "exn + 'a \<Rightarrow> 'a js" where
  "lift_js r w = (r, w)"

definition bind_js :: "'a js \<Rightarrow> ('a \<Rightarrow> 'b js) \<Rightarrow> 'b js" where
  "bind_js m f w = (case m w of (Inl e, w') \<Rightarrow> (Inl e, w') | (Inr x, w') \<Rightarrow> f x w')"

definition Date_now :: "env \<Rightarrow> int js" where
  "Date_now env w = (Inr (clock env (clock_reads w)), w\<lparr>clock_reads := Suc (clock_reads w)\<rparr>)"

definition fetch :: "env \<Rightarrow> request \<Rightarrow> response js" where
  "fetch env rq w =
     ((case upstream env (sent w) rq of Rejected \<Rightarrow> Inl FetchError | Responded r \<Rightarrow> Inr r),
      w\<lparr>sent := sent w @ [rq]\<rparr>)"

definition json_of :: "response \<Rightarrow> json js" where
  "json_of r = lift_js (case res_json r of None \<Rightarrow> Inl InvalidJson | Some v \<Rightarrow> Inr v)"

definition console_error :: "logged list \<Rightarrow> unit js" where
  "console_error line w = (Inr (), w\<lparr>console := console w @ [line]\<rparr>)"

text \<open>The three bytes of the cross mark that starts the log lines.\<close>

definition cross :: string where
  "cross = [CHR 0xE2, CHR 0x9D, CHR 0x8C]"

section \<open>The OAuth token helper\<close>

text \<open>\<^verbatim>\<open>now < cachedTokenExpiresAt\<close>, false when the right side is \<^verbatim>\<open>NaN\<close>.\<close>

definition before :: "int \<Rightarrow> int option \<Rightarrow> bool" where
  "before now e = (case e of None \<Rightarrow> False | Some t \<Rightarrow> now < t)"

text \<open>The number an arithmetic operator makes of its operand.\<close>

fun to_number :: "env \<Rightarrow> json \<Rightarrow> int option" where
  "to_number env JUndefined = None"
| "to_number env JNull = Some 0"
| "to_number env (JBool b) = Some (if b then 1 else 0)"
| "to_number env (JNum n) = Some n"
| "to_number env (JStr s) = string_to_number env s"
| "to_number env (JArr xs) = string_to_number env (to_string (JArr xs))"
| "to_number env (JObj kvs) = string_to_number env (to_string (JObj kvs))"

definition token_request :: "config \<Rightarrow> request" where
  "token_request cfg =
     \<lparr>http_method = ''POST'',
      url = ''https://login.microsoftonline.com/'' @ tmpl (BC_TENANT_ID cfg) @ ''/oauth2/v2.0/token'',
      headers = [(''Content-Type'', ''application/x-www-form-urlencoded'')],
      body = Form [(''grant_type'', ''client_credentials''),
                   (''client_id'', tmpl (BC_CLIENT_ID cfg)),
                   (''client_secret'', tmpl (BC_CLIENT_SECRET cfg)),
                   (''scope'', BC_SCOPE cfg)]\<rparr>"

definition token_failure :: exn where
  "token_failure = Error
     ''Failed to get access token from Azure. Check BC_TENANT_ID / BC_CLIENT_ID / BC_CLIENT_SECRET.''"

text \<open>\<^verbatim>\<open>data.expires_in || 3600\<close>.\<close>

definition expiresInSec :: "json \<Rightarrow> json" where
  "expiresInSec e = (if truthy e then e else JNum 3600)"

text \<open>
  The program's numbers are IEEE doubles, and each arithmetic operation gives the double
  nearest to its exact result, a tie going to the double with the even mantissa. For
  integers: a result below \<open>2\<^sup>5\<^sup>3\<close> in magnitude is kept as it is, a larger one
  keeps its leading 53 bits, rounded. What rounds to \<open>2\<^sup>1\<^sup>0\<^sup>2\<^sup>4\<close> or beyond is
  \<^verbatim>\<open>Infinity\<close> in the program; here the integers \<open>2\<^sup>1\<^sup>0\<^sup>2\<^sup>4\<close> and \<open>- 2\<^sup>1\<^sup>0\<^sup>2\<^sup>4\<close>
  stand for the two infinities, which compare with every finite double as they do.
\<close>

fun bit_length :: "nat \<Rightarrow> nat" where
  "bit_length n = (if n = 0 then 0 else Suc (bit_length (n div 2)))"

declare bit_length.simps [simp del]

definition round_double :: "int \<Rightarrow> int" where
  "round_double x =
     (let a = \<bar>x\<bar> in
      if a < 9007199254740992 then x
      else if 2 ^ 1024 \<le> a then sgn x * 2 ^ 1024
      else let ulp = 2 ^ (bit_length (nat a) - 53); q = a div ulp; r = a mod ulp
           in sgn x * ((if ulp < 2 * r \<or> (2 * r = ulp \<and> odd q) then q + 1 else q) * ulp))"

text \<open>\<^verbatim>\<open>now + (expiresInSec - 60) * 1000\<close>, three operations on doubles.\<close>

definition expiry :: "env \<Rightarrow> int \<Rightarrow> json \<Rightarrow> int option" where
  "expiry env now e =
     map_option (\<lambda>n. round_double (now + round_double (round_double (n - 60) * 1000)))
       (to_number env (expiresInSec e))"

definition store_token :: "json \<Rightarrow> int option \<Rightarrow> json js" where
  "store_token tok e w = (Inr tok, w\<lparr>cachedToken := tok, cachedTokenExpiresAt := e\<rparr>)"

text \<open>\<^verbatim>\<open>cachedToken && now < cachedTokenExpiresAt\<close>.\<close>

definition cache_hit :: "int \<Rightarrow> world \<Rightarrow> bool" where
  "cache_hit now w = (truthy (cachedToken w) \<and> before now (cachedTokenExpiresAt w))"

definition getAccessToken :: "config \<Rightarrow> env \<Rightarrow> json js" where
  "getAccessToken cfg env =
     bind_js (Date_now env) (\<lambda>now w.
       if cache_hit now w
       then return_js (cachedToken w) w
       else bind_js (fetch env (token_request cfg)) (\<lambda>res.
         if \<not> res_ok res
         then bind_js
                (console_error
                   [Text (cross @ '' Error getting access token from Azure:''), Text (res_text res)])
                (\<lambda>_. throw_js token_failure)
         else bind_js (json_of res) (\<lambda>data.
                bind_js (lift_js (get_prop data ''access_token'')) (\<lambda>tok.
                bind_js (lift_js (get_prop data ''expires_in'')) (\<lambda>e.
                store_token tok (expiry env now e))))) w)"

definition getBcAuthHeader :: "config \<Rightarrow> env \<Rightarrow> string js" where
  "getBcAuthHeader cfg env =
     bind_js (getAccessToken cfg env) (\<lambda>token. return_js (''Bearer '' @ to_string token))"


section \<open>Requests to the portal, and the auth middleware\<close>

text \<open>
  What the handlers read of an incoming request: the \<^verbatim>\<open>Authorization\<close> header, the
  parsed JSON body, and \<^verbatim>\<open>req.user\<close>, which the middleware sets. A handler answers
  with a status and a JSON body.
\<close>

record http_request =
  authorization :: "string option"
  req_body :: json
  user :: json

datatype reply = Reply nat json

definition error_body :: "string \<Rightarrow> json" where
  "error_body msg = JObj [(''error'', JStr msg)]"

definition startsWith :: "string \<Rightarrow> string \<Rightarrow> bool" where
  "startsWith s p = (take (length p) s = p)"

text \<open>
  \<^verbatim>\<open>authHeader.startsWith("Bearer ") ? authHeader.slice(7) : null\<close>, for
  \<^verbatim>\<open>authHeader = req.headers.authorization || ""\<close>.
\<close>

definition bearer_token :: "http_request \<Rightarrow> string option" where
  "bearer_token req =
     (let authHeader = (case authorization req of None \<Rightarrow> [] | Some h \<Rightarrow> h)
      in if startsWith authHeader ''Bearer '' then Some (drop 7 authHeader) else None)"

text \<open>
  The middleware gets the route's handler as \<open>next\<close> and calls it only with the
  verified payload in \<^verbatim>\<open>req.user\<close>.
\<close>

definition authMiddleware ::
  "config \<Rightarrow> env \<Rightarrow> http_request \<Rightarrow> (http_request \<Rightarrow> world \<Rightarrow> reply \<times> world) \<Rightarrow>
   world \<Rightarrow> reply \<times> world" where
  "authMiddleware cfg env req next w =
     (case bearer_token req of
        None \<Rightarrow> (Reply 401 (error_body ''No token provided''), w)
      | Some token \<Rightarrow>
          if token = [] then (Reply 401 (error_body ''No token provided''), w)
          else (case jwt_verify env token (JWT_SECRET cfg) of
                  Inr payload \<Rightarrow> next (req\<lparr>user := payload\<rparr>) w
                | Inl err \<Rightarrow>
                    (Reply 401 (error_body ''Invalid or expired token''),
                     w\<lparr>console := console w @ [[Text ''JWT error:'', Thrown err]]\<rparr>)))"

section \<open>POST /login\<close>

text \<open>
  The handler has no \<^verbatim>\<open>try\<close>: destructuring a body that is \<^verbatim>\<open>undefined\<close> throws
  to the framework (\<open>Inl\<close>).
\<close>

definition session_payload :: "portal_user \<Rightarrow> json" where
  "session_payload u =
     JObj [(''id'', JNum (id' u)), (''email'', JStr (email u)),
           (''bcCustomerNo'', JStr (bcCustomerNo u))]"

definition login :: "config \<Rightarrow> env \<Rightarrow> http_request \<Rightarrow> exn + reply" where
  "login cfg env req =
     (case get_prop (req_body req) ''email'' of
        Inl e \<Rightarrow> Inl e
      | Inr em \<Rightarrow>
          (case get_prop (req_body req) ''password'' of
             Inl e \<Rightarrow> Inl e
           | Inr pw \<Rightarrow>
               (case find (\<lambda>u. JStr (email u) = em \<and> JStr (password u) = pw) PORTAL_USERS of
                  None \<Rightarrow> Inr (Reply 401 (error_body ''Invalid email or password''))
                | Some u \<Rightarrow>
                    Inr (Reply 200
                      (JObj [(''token'', JStr (jwt_sign env (session_payload u) (JWT_SECRET cfg) ''8h'')),
                             (''user'', JObj [(''email'', JStr (email u))])])))))"

section \<open>POST /order\<close>

text \<open>
  The routes \<^verbatim>\<open>GET /\<close> and \<^verbatim>\<open>GET /items\<close> take no part in the properties proved
  below and are left out.
\<close>

fun is_array :: "json \<Rightarrow> bool" where
  "is_array (JArr xs) = True"
| "is_array v = False"

fun elems :: "json \<Rightarrow> json list" where
  "elems (JArr xs) = xs"
| "elems v = []"

definition bc_headers :: "string \<Rightarrow> (string \<times> string) list" where
  "bc_headers authHeader =
     [(''Authorization'', authHeader), (''Content-Type'', ''application/json'')]"

text \<open>
  \<^verbatim>\<open>user && user.bcCustomerNo ? user.bcCustomerNo : process.env.BC_PORTAL_CUSTOMER_NO || "C00010"\<close>;
  the property is read of a truthy value only, which never throws.
\<close>

definition customerNo_of :: "config \<Rightarrow> json \<Rightarrow> json" where
  "customerNo_of cfg u =
     (let no = (if truthy u
                then (case get_prop u ''bcCustomerNo'' of Inr v \<Rightarrow> v | Inl e \<Rightarrow> JUndefined)
                else u)
      in if truthy no then no else JStr (env_or (BC_PORTAL_CUSTOMER_NO cfg) ''C00010''))"

definition customer_request :: "config \<Rightarrow> string \<Rightarrow> json \<Rightarrow> request" where
  "customer_request cfg authHeader customerNo =
     \<lparr>http_method = ''GET'',
      url = COMPANY_URL cfg @ ''/customers?$filter=number eq '' @ [CHR 0x27]
              @ to_string customerNo @ [CHR 0x27],
      headers = bc_headers authHeader,
      body = NoBody\<rparr>"

text \<open>Step 1: look the customer up by number; \<open>Inl\<close> is a reply that ends the request.\<close>

definition lookup_customer :: "config \<Rightarrow> env \<Rightarrow> string \<Rightarrow> json \<Rightarrow> (reply + json) js" where
  "lookup_customer cfg env authHeader customerNo =
     bind_js (fetch env (customer_request cfg authHeader customerNo)) (\<lambda>custRes.
       if \<not> res_ok custRes
       then bind_js
              (console_error [Text (cross @ '' BC customer lookup error:''), Text (res_text custRes)])
              (\<lambda>_. return_js (Inl (Reply 500 (error_body ''Failed to look up customer in BC.''))))
       else bind_js (json_of custRes) (\<lambda>custData.
              bind_js (lift_js (get_prop custData ''value'')) (\<lambda>v.
                if \<not> truthy v \<or> get_prop v ''length'' = Inr (JNum 0)
                then bind_js
                       (console_error
                          [Text (cross @ '' Customer not found by number:''), Shown customerNo])
                       (\<lambda>_. return_js (Inl (Reply 400 (error_body
                              (''Customer number '' @ to_string customerNo
                                 @ '' not found in this company.'')))))
                else bind_js (lift_js (get_first v)) (\<lambda>c.
                       bind_js (lift_js (get_prop c ''id'')) (\<lambda>customerId.
                         return_js (Inr customerId))))))"

definition order_request :: "config \<Rightarrow> env \<Rightarrow> string \<Rightarrow> json \<Rightarrow> int \<Rightarrow> int \<Rightarrow> request" where
  "order_request cfg env authHeader customerId today now =
     \<lparr>http_method = ''POST'',
      url = COMPANY_URL cfg @ ''/salesOrders'',
      headers = bc_headers authHeader,
      body = JsonBody (JObj
        [(''customerId'', customerId),
         (''orderDate'', JStr (take 10 (toISOString env today))),
         (''externalDocumentNumber'', JStr (''WEB-'' @ number_string now))])\<rparr>"

text \<open>Step 2: create the order header; the clock is read for the date and for the number.\<close>

definition create_order :: "config \<Rightarrow> env \<Rightarrow> string \<Rightarrow> json \<Rightarrow> (reply + json) js" where
  "create_order cfg env authHeader customerId =
     bind_js (Date_now env) (\<lambda>today.
     bind_js (Date_now env) (\<lambda>now.
     bind_js (fetch env (order_request cfg env authHeader customerId today now)) (\<lambda>orderRes.
       if \<not> res_ok orderRes
       then bind_js
              (console_error [Text (cross @ '' BC create order error:''), Text (res_text orderRes)])
              (\<lambda>_. return_js (Inl (Reply 500 (error_body ''Failed to create order header in BC.''))))
       else bind_js (json_of orderRes) (\<lambda>order. return_js (Inr order)))))"

definition lineUrl :: "config \<Rightarrow> string" where
  "lineUrl cfg = COMPANY_URL cfg @ ''/salesOrderLines''"

definition line_request :: "config \<Rightarrow> string \<Rightarrow> json \<Rightarrow> json \<Rightarrow> json \<Rightarrow> request" where
  "line_request cfg authHeader orderId itemId quantity =
     \<lparr>http_method = ''POST'',
      url = lineUrl cfg,
      headers = bc_headers authHeader,
      body = JsonBody (JObj
        [(''documentId'', orderId), (''lineType'', JStr ''Item''),
         (''itemId'', itemId), (''quantity'', quantity)])\<rparr>"

definition line_failed :: reply where
  "line_failed = Reply 500 (error_body ''Failed to add an order line in BC.'')"

text \<open>
  Step 3, the loop over the lines: \<open>Some\<close> is the reply of a \<^verbatim>\<open>return\<close> inside the
  loop, \<open>None\<close> the loop running to its end.
\<close>

fun add_lines :: "config \<Rightarrow> env \<Rightarrow> string \<Rightarrow> json \<Rightarrow> json list \<Rightarrow> reply option js" where
  "add_lines cfg env authHeader orderId [] = return_js None"
| "add_lines cfg env authHeader orderId (line # rest) =
     bind_js (lift_js (get_prop line ''id'')) (\<lambda>itemId.
       if \<not> truthy itemId then add_lines cfg env authHeader orderId rest
       else bind_js (lift_js (get_prop line ''quantity'')) (\<lambda>quantity.
         if \<not> truthy quantity then add_lines cfg env authHeader orderId rest
         else bind_js (fetch env (line_request cfg authHeader orderId itemId quantity)) (\<lambda>lineRes.
           if \<not> res_ok lineRes
           then bind_js
                  (console_error [Text (cross @ '' BC add line error:''), Text (res_text lineRes)])
                  (\<lambda>_. return_js (Some line_failed))
           else add_lines cfg env authHeader orderId rest)))"

definition order_created :: "json \<Rightarrow> reply" where
  "order_created number =
     Reply 200 (JObj
       [(''success'', JBool True), (''bcOrderNo'', number),
        (''message'', JStr (''Order '' @ to_string number @ '' created in BC.''))])"

text \<open>Step 3 and the reply that ends the handler, once the order header is there.\<close>

definition finish_order :: "config \<Rightarrow> env \<Rightarrow> string \<Rightarrow> json \<Rightarrow> json list \<Rightarrow> reply js" where
  "finish_order cfg env authHeader order lines =
     bind_js (lift_js (get_prop order ''id'')) (\<lambda>orderId.
     bind_js (add_lines cfg env authHeader orderId lines) (\<lambda>early.
       case early of
         Some r \<Rightarrow> return_js r
       | None \<Rightarrow>
           bind_js (lift_js (get_prop order ''number'')) (\<lambda>number.
             return_js (order_created number))))"

text \<open>The body of the \<^verbatim>\<open>try\<close> block.\<close>

definition order_try :: "config \<Rightarrow> env \<Rightarrow> http_request \<Rightarrow> reply js" where
  "order_try cfg env req =
     bind_js (lift_js (get_prop (req_body req) ''lines'')) (\<lambda>lines.
       if \<not> truthy lines \<or> \<not> is_array lines \<or> elems lines = []
       then return_js (Reply 400 (error_body ''No order lines provided.''))
       else bind_js (getBcAuthHeader cfg env) (\<lambda>authHeader.
         bind_js (lookup_customer cfg env authHeader (customerNo_of cfg (user req))) (\<lambda>found.
           case found of
             Inl r \<Rightarrow> return_js r
           | Inr customerId \<Rightarrow>
               bind_js (create_order cfg env authHeader customerId) (\<lambda>created.
                 case created of
                   Inl r \<Rightarrow> return_js r
                 | Inr order \<Rightarrow> finish_order cfg env authHeader order (elems lines)))))"

text \<open>The \<^verbatim>\<open>catch\<close> of a route: log the error, answer 500 with the route's message.\<close>

definition catch_js :: "string \<Rightarrow> string \<Rightarrow> reply js \<Rightarrow> world \<Rightarrow> reply \<times> world" where
  "catch_js label msg m w =
     (case m w of
        (Inr r, w') \<Rightarrow> (r, w')
      | (Inl err, w') \<Rightarrow>
          (Reply 500 (error_body msg), w'\<lparr>console := console w' @ [[Text label, Thrown err]]\<rparr>))"

definition order_handler :: "config \<Rightarrow> env \<Rightarrow> http_request \<Rightarrow> world \<Rightarrow> reply \<times> world" where
  "order_handler cfg env req =
     catch_js (cross @ '' Error in /order:'') ''Server error creating order.'' (order_try cfg env req)"

definition post_order :: "config \<Rightarrow> env \<Rightarrow> http_request \<Rightarrow> world \<Rightarrow> reply \<times> world" where
  "post_order cfg env req = authMiddleware cfg env req (order_handler cfg env)"

section \<open>GET /orders\<close>

fun map_js :: "('a \<Rightarrow> exn + 'b) \<Rightarrow> 'a list \<Rightarrow> exn + 'b list" where
  "map_js f [] = Inr []"
| "map_js f (x # xs) =
     (case f x of
        Inl e \<Rightarrow> Inl e
      | Inr y \<Rightarrow> (case map_js f xs of Inl e \<Rightarrow> Inl e | Inr ys \<Rightarrow> Inr (y # ys)))"

text \<open>The arrow function of \<^verbatim>\<open>data.value.map\<close>; reading a field of a null entry throws.\<close>

definition order_summary :: "json \<Rightarrow> exn + json" where
  "order_summary o' =
     (case get_prop o' ''number'' of
        Inl e \<Rightarrow> Inl e
      | Inr number \<Rightarrow>
          Inr (JObj
            [(''number'', number),
             (''orderDate'', case get_prop o' ''orderDate'' of Inr v \<Rightarrow> v | Inl e \<Rightarrow> JUndefined),
             (''status'', case get_prop o' ''status'' of Inr v \<Rightarrow> v | Inl e \<Rightarrow> JUndefined),
             (''totalAmount'',
                case get_prop o' ''totalAmountIncludingTax'' of Inr v \<Rightarrow> v | Inl e \<Rightarrow> JUndefined)]))"

definition orders_request :: "config \<Rightarrow> string \<Rightarrow> json \<Rightarrow> request" where
  "orders_request cfg authHeader customerNo =
     \<lparr>http_method = ''GET'',
      url = COMPANY_URL cfg @ ''/salesOrders?$filter=customerNumber eq '' @ [CHR 0x27]
              @ to_string customerNo @ [CHR 0x27] @ ''&$orderby=orderDate desc'',
      headers = bc_headers authHeader,
      body = NoBody\<rparr>"

definition orders_try :: "config \<Rightarrow> env \<Rightarrow> http_request \<Rightarrow> reply js" where
  "orders_try cfg env req =
     bind_js (lift_js (get_prop (user req) ''bcCustomerNo'')) (\<lambda>customerNo.
     bind_js (getBcAuthHeader cfg env) (\<lambda>authHeader.
     bind_js (fetch env (orders_request cfg authHeader customerNo)) (\<lambda>response.
       if \<not> res_ok response
       then bind_js
              (console_error [Text (cross @ '' BC /orders error:''), Text (res_text response)])
              (\<lambda>_. return_js (Reply 500 (error_body ''Failed to load orders from BC.'')))
       else bind_js (json_of response) (\<lambda>data.
            bind_js (lift_js (get_prop data ''value'')) (\<lambda>v.
            bind_js (lift_js (if is_array v then map_js order_summary (elems v) else Inl TypeError))
              (\<lambda>orders. return_js (Reply 200 (JArr orders))))))))"

definition orders_handler :: "config \<Rightarrow> env \<Rightarrow> http_request \<Rightarrow> world \<Rightarrow> reply \<times> world" where
  "orders_handler cfg env req =
     catch_js (cross @ '' Error in /orders:'') ''Server error loading orders.'' (orders_try cfg env req)"

definition get_orders :: "config \<Rightarrow> env \<Rightarrow> http_request \<Rightarrow> world \<Rightarrow> reply \<times> world" where
  "get_orders cfg env req = authMiddleware cfg env req (orders_handler cfg env)"

section \<open>Scenarios\<close>

text \<open>Concrete configurations, remote services and states, on which the theorems below are run.\<close>

definition demo_config :: config where
  "demo_config =
     \<lparr>BC_TENANT_ID = Some ''tenant'', BC_CLIENT_ID = Some ''client'',
      BC_CLIENT_SECRET = Some ''secret'', BC_ENV = Some ''Production'',
      BC_COMPANY_ID = Some ''company'', env_BC_SCOPE = None, env_JWT_SECRET = None,
      BC_PORTAL_CUSTOMER_NO = None\<rparr>"

definition token_response :: "string \<Rightarrow> int \<Rightarrow> response" where
  "token_response tok lifetime =
     \<lparr>res_ok = True, res_text = [],
      res_json = Some (JObj [(''access_token'', JStr tok), (''expires_in'', JNum lifetime)])\<rparr>"

definition refusal :: "string \<Rightarrow> response" where
  "refusal txt = \<lparr>res_ok = False, res_text = txt, res_json = None\<rparr>"

definition demo_env :: "(request list \<Rightarrow> request \<Rightarrow> outcome) \<Rightarrow> env" where
  "demo_env up =
     \<lparr>upstream = up,
      clock = (\<lambda>k. 1000 * int k),
      jwt_sign = (\<lambda>p s e. ''jwt''),
      jwt_verify = (\<lambda>t s. if t = ''jwt'' then Inr (session_payload (hd PORTAL_USERS))
                            else Inl (JwtError ''invalid signature'')),
      toISOString = (\<lambda>t. ''2026-01-01T00:00:00.000Z''),
      string_to_number = (\<lambda>s. None)\<rparr>"

definition granting :: "int \<Rightarrow> env" where
  "granting lifetime = demo_env (\<lambda>hist rq. Responded (token_response ''T'' lifetime))"

definition refusing :: "string \<Rightarrow> env" where
  "refusing txt = demo_env (\<lambda>hist rq. Responded (refusal txt))"

definition warm_world :: world where
  "warm_world =
     \<lparr>cachedToken = JStr ''T'', cachedTokenExpiresAt = Some 3540000,
      sent = [token_request demo_config], console = [], clock_reads = 1\<rparr>"

definition half_hour_world :: world where
  "half_hour_world =
     \<lparr>cachedToken = JStr ''T'', cachedTokenExpiresAt = Some 1740000,
      sent = [token_request demo_config], console = [], clock_reads = 1\<rparr>"

definition half_hour_stale :: world where
  "half_hour_stale = half_hour_world\<lparr>clock_reads := 1740\<rparr>"

definition refused_world :: world where
  "refused_world =
     initial_world\<lparr>clock_reads := 1, sent := [token_request demo_config],
        console := [[Text (cross @ '' Error getting access token from Azure:''),
                     Text ''invalid_client'']]\<rparr>"

definition anonymous :: http_request where
  "anonymous = \<lparr>authorization = None, req_body = JObj [], user = JUndefined\<rparr>"

definition forged :: http_request where
  "forged = \<lparr>authorization = Some ''Bearer forged'', req_body = JObj [], user = JUndefined\<rparr>"

definition order_of :: "json \<Rightarrow> http_request" where
  "order_of b = \<lparr>authorization = Some ''Bearer jwt'', req_body = b, user = JUndefined\<rparr>"

text \<open>
  An ERP that finds the customer, creates the order header \<open>SO-1\<close>, and accepts every
  order line but those for the item \<open>blocked\<close>.
\<close>

definition ok_json :: "json \<Rightarrow> response" where
  "ok_json v = \<lparr>res_ok = True, res_text = [], res_json = Some v\<rparr>"

definition item_of :: "request \<Rightarrow> json" where
  "item_of rq =
     (case body rq of
        JsonBody v \<Rightarrow> (case get_prop v ''itemId'' of Inr i \<Rightarrow> i | Inl e \<Rightarrow> JUndefined)
      | _ \<Rightarrow> JUndefined)"

definition erp_upstream :: "request list \<Rightarrow> request \<Rightarrow> outcome" where
  "erp_upstream hist rq =
     (if body rq = body (token_request demo_config) then Responded (token_response ''T'' 3600)
      else if http_method rq = ''GET''
      then Responded (ok_json (JObj [(''value'', JArr [JObj [(''id'', JStr ''customer-guid'')]])]))
      else if item_of rq = JUndefined
      then Responded (ok_json (JObj [(''id'', JStr ''order-guid''), (''number'', JStr ''SO-1'')]))
      else if item_of rq = JStr ''blocked'' then Responded (refusal ''Item is blocked.'')
      else Responded (ok_json (JObj [])))"

definition erp :: env where
  "erp = demo_env erp_upstream"

definition order_line :: "string \<Rightarrow> int \<Rightarrow> json" where
  "order_line item n = JObj [(''id'', JStr item), (''no'', JStr ''1000''), (''quantity'', JNum n)]"

definition demo_auth :: string where
  "demo_auth = ''Bearer T''"

definition demo_customer_request :: request where
  "demo_customer_request = customer_request demo_config demo_auth (JStr ''CUST-00466'')"

definition demo_order_request :: request where
  "demo_order_request =
     order_request demo_config erp demo_auth (JStr ''customer-guid'') 1000 2000"

definition demo_line_request :: "string \<Rightarrow> int \<Rightarrow> request" where
  "demo_line_request item n =
     line_request demo_config demo_auth (JStr ''order-guid'') (JStr item) (JNum n)"

definition some_lines :: "json list" where
  "some_lines = [order_line ''apple'' 2, order_line ''blocked'' 1, order_line ''pear'' 3]"

definition blocked_world :: world where
  "blocked_world =
     warm_world\<lparr>sent := [token_request demo_config, demo_customer_request, demo_order_request,
                         demo_line_request ''apple'' 2, demo_line_request ''blocked'' 1],
       clock_reads := 3,
       console := [[Text (cross @ '' BC add line error:''), Text ''Item is blocked.'']]\<rparr>"

definition idle_lines :: "json list" where
  "idle_lines =
     [JObj [(''id'', JStr ''apple''), (''no'', JStr ''1000''), (''quantity'', JNum 0)],
      JObj [(''no'', JStr ''1001''), (''quantity'', JNum 2)]]"


definition guest_payload :: json where
  "guest_payload = JObj [(''id'', JNum 7), (''email'', JStr ''guest'')]"

definition guest_erp :: env where
  "guest_erp = erp\<lparr>jwt_verify := (\<lambda>t s. Inr guest_payload)\<rparr>"

section \<open>Properties of the token helper\<close>

text \<open>What a call does, by the state of the cache and the answer of the identity provider.\<close>

lemma round_double_exact:
  "\<bar>x\<bar> < 9007199254740992 \<Longrightarrow> round_double x = x"
  by (simp add: round_double_def)

lemma expiry_exact:
  assumes "to_number env (expiresInSec e) = Some n"
    and "\<bar>(n - 60) * 1000\<bar> < 9007199254740992"
    and "\<bar>now + (n - 60) * 1000\<bar> < 9007199254740992"
  shows "expiry env now e = Some (now + (n - 60) * 1000)"
proof -
  have "\<bar>n - 60\<bar> \<le> \<bar>(n - 60) * 1000\<bar>"
    by (simp add: abs_mult)
  with assms(2) have "round_double (n - 60) = n - 60"
    by (intro round_double_exact) simp
  moreover have "round_double ((n - 60) * 1000) = (n - 60) * 1000"
    using assms(2) by (rule round_double_exact)
  moreover have "round_double (now + (n - 60) * 1000) = now + (n - 60) * 1000"
    using assms(3) by (rule round_double_exact)
  ultimately show ?thesis
    using assms(1) by (simp add: expiry_def)
qed

lemma cache_hit_clock_reads [simp]:
  "cache_hit now (w\<lparr>clock_reads := n\<rparr>) = cache_hit now w"
  by (simp add: cache_hit_def)

lemma getAccessToken_hit:
  "cache_hit (clock env (clock_reads w)) w \<Longrightarrow>
   getAccessToken cfg env w = (Inr (cachedToken w), w\<lparr>clock_reads := Suc (clock_reads w)\<rparr>)"
  by (simp add: getAccessToken_def bind_js_def Date_now_def return_js_def)

lemma getAccessToken_rejected:
  "\<not> cache_hit (clock env (clock_reads w)) w \<Longrightarrow>
   upstream env (sent w) (token_request cfg) = Rejected \<Longrightarrow>
   getAccessToken cfg env w =
     (Inl FetchError, w\<lparr>clock_reads := Suc (clock_reads w), sent := sent w @ [token_request cfg]\<rparr>)"
  by (simp add: getAccessToken_def bind_js_def Date_now_def fetch_def)

lemma getAccessToken_not_ok:
  "\<not> cache_hit (clock env (clock_reads w)) w \<Longrightarrow>
   upstream env (sent w) (token_request cfg) = Responded r \<Longrightarrow> \<not> res_ok r \<Longrightarrow>
   getAccessToken cfg env w =
     (Inl token_failure,
      w\<lparr>clock_reads := Suc (clock_reads w), sent := sent w @ [token_request cfg],
        console := console w @
          [[Text (cross @ '' Error getting access token from Azure:''), Text (res_text r)]]\<rparr>)"
  by (simp add: getAccessToken_def bind_js_def Date_now_def fetch_def console_error_def throw_js_def)

lemma getAccessToken_refresh:
  "\<not> cache_hit (clock env (clock_reads w)) w \<Longrightarrow>
   upstream env (sent w) (token_request cfg) = Responded r \<Longrightarrow> res_ok r \<Longrightarrow>
   res_json r = Some data \<Longrightarrow> get_prop data ''access_token'' = Inr tok \<Longrightarrow>
   get_prop data ''expires_in'' = Inr e \<Longrightarrow>
   getAccessToken cfg env w =
     (Inr tok,
      w\<lparr>clock_reads := Suc (clock_reads w), sent := sent w @ [token_request cfg],
        cachedToken := tok,
        cachedTokenExpiresAt := expiry env (clock env (clock_reads w)) e\<rparr>)"
  by (simp add: getAccessToken_def bind_js_def Date_now_def fetch_def json_of_def lift_js_def store_token_def)

lemma getAccessToken_Inr_cached:
  "getAccessToken cfg env w = (Inr tok, w') \<Longrightarrow> cachedToken w' = tok"
  by (auto simp add: getAccessToken_def cache_hit_def bind_js_def Date_now_def fetch_def json_of_def lift_js_def store_token_def
      return_js_def console_error_def throw_js_def
      split: if_splits sum.splits outcome.splits option.splits prod.splits)

lemma getAccessToken_sent:
  "getAccessToken cfg env w = (r, w') \<Longrightarrow>
   sent w' = (if cache_hit (clock env (clock_reads w)) w
              then sent w else sent w @ [token_request cfg])"
  by (auto simp add: getAccessToken_def cache_hit_def bind_js_def Date_now_def fetch_def json_of_def lift_js_def store_token_def
      return_js_def console_error_def throw_js_def
      split: if_splits sum.splits outcome.splits option.splits prod.splits)

lemma cache_hit_iff:
  "cache_hit now w \<longleftrightarrow> truthy (cachedToken w) \<and> (\<exists>e. cachedTokenExpiresAt w = Some e \<and> now < e)"
  by (auto simp add: cache_hit_def before_def split: option.splits)

lemma first_call_demo:
  "getAccessToken demo_config (granting 3600) initial_world = (Inr (JStr ''T''), warm_world)"
  by (simp add: getAccessToken_def bind_js_def Date_now_def fetch_def json_of_def lift_js_def
      store_token_def cache_hit_def initial_world_def granting_def demo_env_def token_response_def
      expiry_def round_double_def expiresInSec_def warm_world_def)

lemma getAccessToken_miss_sent:
  "\<not> cache_hit (clock env (clock_reads w)) w \<Longrightarrow>
   sent (snd (getAccessToken cfg env w)) = sent w @ [token_request cfg]"
  using getAccessToken_sent [of cfg env w "fst (getAccessToken cfg env w)" "snd (getAccessToken cfg env w)"]
  by simp

lemma cache_miss_later:
  "\<not> cache_hit now w \<Longrightarrow> cachedToken w2 = cachedToken w \<Longrightarrow>
   cachedTokenExpiresAt w2 = cachedTokenExpiresAt w \<Longrightarrow> now \<le> now2 \<Longrightarrow> \<not> cache_hit now2 w2"
  by (auto simp add: cache_hit_iff)

lemma refused_demo:
  "getAccessToken demo_config (refusing txt) initial_world =
     (Inl token_failure,
      initial_world\<lparr>clock_reads := 1, sent := [token_request demo_config],
        console := [[Text (cross @ '' Error getting access token from Azure:''), Text txt]]\<rparr>)"
  by (simp add: getAccessToken_def bind_js_def Date_now_def fetch_def console_error_def throw_js_def
      cache_hit_def initial_world_def refusing_def demo_env_def refusal_def)

lemma short_lived_demo:
  "getAccessToken demo_config (granting 30) initial_world =
     (Inr (JStr ''T''),
      initial_world\<lparr>clock_reads := 1, sent := [token_request demo_config],
        cachedToken := JStr ''T'', cachedTokenExpiresAt := Some (- 30000)\<rparr>)"
  by (simp add: getAccessToken_def bind_js_def Date_now_def fetch_def json_of_def lift_js_def
      store_token_def cache_hit_def initial_world_def granting_def demo_env_def token_response_def
      expiry_def round_double_def expiresInSec_def)

lemma half_hour_demo:
  "getAccessToken demo_config (granting 1800) initial_world = (Inr (JStr ''T''), half_hour_world)"
  by (simp add: getAccessToken_def bind_js_def Date_now_def fetch_def json_of_def lift_js_def
      store_token_def cache_hit_def initial_world_def granting_def demo_env_def token_response_def
      expiry_def round_double_def expiresInSec_def half_hour_world_def)

lemma huge_expiry:
  "expiry env 0 (JNum 9007199254740992) = Some 9007199254740931584"
proof -
  have b: "bit_length 9007199254740932000 = 63" "bit_length 9007199254740931584 = 63"
    by (simp_all add: bit_length.simps)
  have "round_double (9007199254740992 - 60) = 9007199254740932"
    by (simp add: round_double_def)
  moreover have "round_double (9007199254740932 * 1000) = 9007199254740931584"
    using b by (simp add: round_double_def)
  moreover have "round_double (0 + 9007199254740931584) = 9007199254740931584"
    using b by (simp add: round_double_def)
  ultimately show ?thesis
    by (simp add: expiry_def expiresInSec_def)
qed

lemma huge_lifetime_demo:
  "getAccessToken demo_config (granting 9007199254740992) initial_world =
     (Inr (JStr ''T''),
      initial_world\<lparr>clock_reads := 1, sent := [token_request demo_config],
        cachedToken := JStr ''T'', cachedTokenExpiresAt := Some 9007199254740931584\<rparr>)"
proof -
  let ?env = "granting 9007199254740992"
  let ?r = "token_response ''T'' 9007199254740992"
  let ?d = "JObj [(''access_token'', JStr ''T''), (''expires_in'', JNum 9007199254740992)]"
  have "\<not> cache_hit (clock ?env (clock_reads initial_world)) initial_world"
    "upstream ?env (sent initial_world) (token_request demo_config) = Responded ?r"
    "res_ok ?r" "res_json ?r = Some ?d" "get_prop ?d ''access_token'' = Inr (JStr ''T'')"
    "get_prop ?d ''expires_in'' = Inr (JNum 9007199254740992)"
    by (simp_all add: cache_hit_def initial_world_def granting_def demo_env_def
        token_response_def)
  from getAccessToken_refresh [OF this]
  have "getAccessToken demo_config ?env initial_world =
     (Inr (JStr ''T''),
      initial_world\<lparr>clock_reads := Suc (clock_reads initial_world),
        sent := sent initial_world @ [token_request demo_config], cachedToken := JStr ''T'',
        cachedTokenExpiresAt :=
          expiry ?env (clock ?env (clock_reads initial_world)) (JNum 9007199254740992)\<rparr>)" .
  moreover have "clock ?env (clock_reads initial_world) = 0"
    by (simp add: granting_def demo_env_def initial_world_def)
  ultimately show ?thesis
    by (simp add: huge_expiry initial_world_def)
qed


section \<open>Properties of the middleware\<close>

lemma authMiddleware_no_token:
  "bearer_token req = None \<Longrightarrow>
   authMiddleware cfg env req next w = (Reply 401 (error_body ''No token provided''), w)"
  by (simp add: authMiddleware_def)

lemma authMiddleware_invalid:
  "bearer_token req = Some t \<Longrightarrow> jwt_verify env t (JWT_SECRET cfg) = Inl err \<Longrightarrow>
   authMiddleware cfg env req next w =
     (if t = [] then (Reply 401 (error_body ''No token provided''), w)
      else (Reply 401 (error_body ''Invalid or expired token''),
            w\<lparr>console := console w @ [[Text ''JWT error:'', Thrown err]]\<rparr>))"
  by (simp add: authMiddleware_def)

lemma authMiddleware_valid:
  "bearer_token req = Some t \<Longrightarrow> t \<noteq> [] \<Longrightarrow> jwt_verify env t (JWT_SECRET cfg) = Inr p \<Longrightarrow>
   authMiddleware cfg env req next w = next (req\<lparr>user := p\<rparr>) w"
  by (simp add: authMiddleware_def)

lemma bearer_token_absent:
  "authorization req = None \<Longrightarrow> bearer_token req = None"
  by (simp add: bearer_token_def startsWith_def)

section \<open>Properties of the order route\<close>

text \<open>What each step sends: the request log only grows, by the requests of the step.\<close>

lemma order_try_no_lines:
  "get_prop (req_body req) ''lines'' = Inr lines \<Longrightarrow> \<not> is_array lines \<or> lines = JArr [] \<Longrightarrow>
   order_try cfg env req w = (Inr (Reply 400 (error_body ''No order lines provided.'')), w)"
  by (cases lines) (auto simp add: order_try_def bind_js_def lift_js_def return_js_def)

lemma getBcAuthHeader_token:
  "getBcAuthHeader cfg env w = (r, w') \<Longrightarrow> \<exists>r0. getAccessToken cfg env w = (r0, w')"
  by (auto simp add: getBcAuthHeader_def bind_js_def return_js_def split: prod.splits sum.splits)

lemma getBcAuthHeader_sent:
  "getBcAuthHeader cfg env w = (r, w') \<Longrightarrow>
   sent w' = sent w \<or> sent w' = sent w @ [token_request cfg]"
proof -
  assume "getBcAuthHeader cfg env w = (r, w')"
  then obtain r0 where "getAccessToken cfg env w = (r0, w')"
    using getBcAuthHeader_token by blast
  from getAccessToken_sent [OF this] show ?thesis
    by (simp split: if_splits)
qed

lemma lookup_customer_sent:
  "lookup_customer cfg env a no w = (r, w') \<Longrightarrow> sent w' = sent w @ [customer_request cfg a no]"
  by (auto simp add: lookup_customer_def bind_js_def return_js_def fetch_def console_error_def
      json_of_def lift_js_def
      split: prod.splits sum.splits outcome.splits option.splits if_splits)

lemma create_order_sent:
  "create_order cfg env a c w = (r, w') \<Longrightarrow>
   sent w' = sent w @
     [order_request cfg env a c (clock env (clock_reads w)) (clock env (Suc (clock_reads w)))]"
  by (auto simp add: create_order_def bind_js_def return_js_def fetch_def console_error_def
      json_of_def lift_js_def Date_now_def
      split: prod.splits sum.splits outcome.splits option.splits if_splits)

lemma add_lines_sent:
  "add_lines cfg env a oid ls w = (r, w') \<Longrightarrow>
   \<exists>new. sent w' = sent w @ new \<and> (\<forall>q\<in>set new. http_method q = ''POST'' \<and> url q = lineUrl cfg)"
proof (induction ls arbitrary: w)
  case Nil
  then show ?case by (simp add: return_js_def)
next
  case (Cons line rest)
  show ?case
  proof (cases "get_prop line ''id''")
    case (Inl e)
    with Cons.prems show ?thesis by (simp add: bind_js_def lift_js_def)
  next
    case i: (Inr itemId)
    show ?thesis
    proof (cases "truthy itemId")
      case False
      with i Cons.prems have "add_lines cfg env a oid rest w = (r, w')"
        by (simp add: bind_js_def lift_js_def)
      then show ?thesis by (rule Cons.IH)
    next
      case ti: True
      show ?thesis
      proof (cases "get_prop line ''quantity''")
        case (Inl e)
        with i ti Cons.prems show ?thesis by (simp add: bind_js_def lift_js_def)
      next
        case q: (Inr quantity)
        show ?thesis
        proof (cases "truthy quantity")
          case False
          with i ti q Cons.prems have "add_lines cfg env a oid rest w = (r, w')"
            by (simp add: bind_js_def lift_js_def)
          then show ?thesis by (rule Cons.IH)
        next
          case tq: True
          let ?rq = "line_request cfg a oid itemId quantity"
          let ?w1 = "w\<lparr>sent := sent w @ [?rq]\<rparr>"
          have rq: "http_method ?rq = ''POST'' \<and> url ?rq = lineUrl cfg"
            by (simp add: line_request_def)
          show ?thesis
          proof (cases "upstream env (sent w) ?rq")
            case Rejected
            with i ti q tq Cons.prems have "sent w' = sent w @ [?rq]"
              by (auto simp add: bind_js_def lift_js_def fetch_def)
            with rq show ?thesis by simp
          next
            case (Responded res)
            show ?thesis
            proof (cases "res_ok res")
              case False
              with Responded i ti q tq Cons.prems have "sent w' = sent w @ [?rq]"
                by (auto simp add: bind_js_def lift_js_def fetch_def console_error_def return_js_def)
              with rq show ?thesis by simp
            next
              case True
              with Responded i ti q tq Cons.prems
              have "add_lines cfg env a oid rest ?w1 = (r, w')"
                by (simp add: bind_js_def lift_js_def fetch_def)
              from Cons.IH [OF this] obtain new where
                "sent w' = sent ?w1 @ new" "\<forall>q\<in>set new. http_method q = ''POST'' \<and> url q = lineUrl cfg"
                by blast
              with rq have "sent w' = sent w @ (?rq # new) \<and>
                  (\<forall>q\<in>set (?rq # new). http_method q = ''POST'' \<and> url q = lineUrl cfg)"
                by simp
              then show ?thesis by blast
            qed
          qed
        qed
      qed
    qed
  qed
qed

lemma non_line_urls:
  "url (token_request cfg) \<noteq> lineUrl cfg"
  "url (customer_request cfg a no) \<noteq> lineUrl cfg"
  "url (order_request cfg env a c today now) \<noteq> lineUrl cfg"
  by (simp_all add: token_request_def customer_request_def order_request_def lineUrl_def
      COMPANY_URL_def BC_BASE_URL_def)

text \<open>The loop over the lines, one line at a time.\<close>

lemma add_lines_skip:
  "get_prop line ''id'' = Inr i \<Longrightarrow> get_prop line ''quantity'' = Inr q \<Longrightarrow>
   \<not> truthy i \<or> \<not> truthy q \<Longrightarrow>
   add_lines cfg env a oid (line # rest) w = add_lines cfg env a oid rest w"
  by (auto simp add: bind_js_def lift_js_def)


lemma add_lines_step:
  "get_prop line ''id'' = Inr i \<Longrightarrow> get_prop line ''quantity'' = Inr q \<Longrightarrow>
   truthy i \<Longrightarrow> truthy q \<Longrightarrow>
   add_lines cfg env a oid (line # rest) w =
     (case upstream env (sent w) (line_request cfg a oid i q) of
        Rejected \<Rightarrow> (Inl FetchError, w\<lparr>sent := sent w @ [line_request cfg a oid i q]\<rparr>)
      | Responded res \<Rightarrow>
          if res_ok res
          then add_lines cfg env a oid rest (w\<lparr>sent := sent w @ [line_request cfg a oid i q]\<rparr>)
          else (Inr (Some line_failed),
                w\<lparr>sent := sent w @ [line_request cfg a oid i q],
                  console := console w @
                    [[Text (cross @ '' BC add line error:''), Text (res_text res)]]\<rparr>))"
  by (simp add: bind_js_def lift_js_def fetch_def console_error_def return_js_def
      split: outcome.splits)

lemma add_lines_failure:
  "add_lines cfg env a oid ls w = (r, w') \<Longrightarrow> sent w' = sent w @ pre @ rq # post \<Longrightarrow>
   upstream env (sent w @ pre) rq = Responded res \<Longrightarrow> \<not> res_ok res \<Longrightarrow>
   post = [] \<and> r = Inr (Some line_failed)"
proof (induction ls arbitrary: w pre)
  case Nil
  then show ?case by (simp add: return_js_def)
next
  case (Cons line rest)
  show ?case
  proof (cases "get_prop line ''id''")
    case (Inl e)
    with Cons.prems show ?thesis by (simp add: bind_js_def lift_js_def)
  next
    case i: (Inr itemId)
    show ?thesis
    proof (cases "get_prop line ''quantity''")
      case (Inl e)
      show ?thesis
      proof (cases "truthy itemId")
        case True
        with i Inl Cons.prems show ?thesis by (simp add: bind_js_def lift_js_def)
      next
        case False
        with i Cons.prems(1) have "add_lines cfg env a oid rest w = (r, w')"
          by (simp add: bind_js_def lift_js_def)
        from Cons.IH [OF this Cons.prems(2,3,4)] show ?thesis .
      qed
    next
      case q: (Inr quantity)
      show ?thesis
      proof (cases "truthy itemId \<and> truthy quantity")
        case False
        then have "add_lines cfg env a oid (line # rest) w = add_lines cfg env a oid rest w"
          using i q by (intro add_lines_skip) auto
        with Cons.prems(1) have "add_lines cfg env a oid rest w = (r, w')" by simp
        from Cons.IH [OF this Cons.prems(2,3,4)] show ?thesis .
      next
        case True
        let ?rq = "line_request cfg a oid itemId quantity"
        let ?w1 = "w\<lparr>sent := sent w @ [?rq]\<rparr>"
        note step = add_lines_step [of line itemId quantity cfg env a oid rest w]
        show ?thesis
        proof (cases "upstream env (sent w) ?rq")
          case Rejected
          with step i q True Cons.prems(1) have "sent w' = sent w @ [?rq]" "r = Inl FetchError"
            by auto
          with Cons.prems(2) have "pre @ rq # post = [?rq]" by simp
          then have "pre = []" "rq = ?rq" "post = []"
            by (simp_all add: append_eq_Cons_conv)
          with Rejected Cons.prems(3) show ?thesis by simp
        next
          case (Responded res0)
          show ?thesis
          proof (cases "res_ok res0")
            case False
            with Responded step i q True Cons.prems(1)
            have "sent w' = sent w @ [?rq]" "r = Inr (Some line_failed)"
              by auto
            moreover from this Cons.prems(2) have "pre @ rq # post = [?rq]" by simp
            then have "post = []" by (simp add: append_eq_Cons_conv)
            ultimately show ?thesis by simp
          next
            case ok: True
            with Responded step i q True Cons.prems(1)
            have rest: "add_lines cfg env a oid rest ?w1 = (r, w')"
              by simp
            from add_lines_sent [OF rest] obtain new where new: "sent w' = sent ?w1 @ new"
              by blast
            with Cons.prems(2) have eq: "?rq # new = pre @ rq # post" by simp
            show ?thesis
            proof (cases pre)
              case Nil
              with eq have "rq = ?rq" by simp
              with Nil Cons.prems(3,4) Responded ok show ?thesis by simp
            next
              case (Cons p pre')
              with eq have p: "p = ?rq" and n: "new = pre' @ rq # post" by simp_all
              have 1: "sent w' = sent ?w1 @ pre' @ rq # post"
                using new n by simp
              have 2: "upstream env (sent ?w1 @ pre') rq = Responded res"
                using Cons.prems(3) Cons p by simp
              from Cons.IH [OF rest 1 2 Cons.prems(4)] show ?thesis .
            qed
          qed
        qed
      qed
    qed
  qed
qed

text \<open>
  Every run of the route sends requests that are not for the order-line endpoint, and
  then the requests of one run of the loop.
\<close>

lemma split_after_head:
  "head @ new = pre @ rq # post \<Longrightarrow> \<forall>q\<in>set head. \<not> P q \<Longrightarrow> P rq \<Longrightarrow>
   \<exists>pre'. pre = head @ pre' \<and> new = pre' @ rq # post"
proof (induction head arbitrary: pre)
  case Nil
  then show ?case by simp
next
  case (Cons h hs)
  show ?case
  proof (cases pre)
    case Nil
    with Cons.prems show ?thesis by auto
  next
    case (Cons p ps)
    with Cons.prems(1) have "p = h" "hs @ new = ps @ rq # post" by simp_all
    moreover from Cons.prems(2) have "\<forall>q\<in>set hs. \<not> P q" by simp
    ultimately obtain pre' where "ps = hs @ pre'" "new = pre' @ rq # post"
      using Cons.IH Cons.prems(3) by blast
    with Cons \<open>p = h\<close> show ?thesis by simp
  qed
qed

lemma finish_order_lines:
  assumes "finish_order cfg env a order ls w3 = (r, w')"
  shows "\<exists>ls' oid e. add_lines cfg env a oid ls' w3 = (e, w') \<and>
           (e = Inr (Some line_failed) \<longrightarrow> r = Inr line_failed)"
proof (cases "get_prop order ''id''")
  case (Inl err)
  with assms have "w' = w3" by (simp add: finish_order_def bind_js_def lift_js_def)
  then have "add_lines cfg env a JNull [] w3 = (Inr None, w')" by (simp add: return_js_def)
  then show ?thesis by blast
next
  case (Inr oid)
  obtain e w4 where al: "add_lines cfg env a oid ls w3 = (e, w4)" by (cases "add_lines cfg env a oid ls w3")
  have "w' = w4 \<and> (e = Inr (Some line_failed) \<longrightarrow> r = Inr line_failed)"
    using assms Inr al
    by (auto simp add: finish_order_def bind_js_def lift_js_def return_js_def
        split: sum.splits option.splits)
  with al show ?thesis by blast
qed

lemma order_try_run:
  assumes "order_try cfg env req w = (r, w')"
  shows "\<exists>head a oid ls w3 e. sent w3 = sent w @ head \<and>
           (\<forall>q\<in>set head. url q \<noteq> lineUrl cfg \<and> (http_method q = ''GET'' \<or> http_method q = ''POST'')) \<and>
           add_lines cfg env a oid ls w3 = (e, w') \<and>
           (e = Inr (Some line_failed) \<longrightarrow> r = Inr line_failed)"
proof -
  let ?P = "\<lambda>q. url q \<noteq> lineUrl cfg \<and> (http_method q = ''GET'' \<or> http_method q = ''POST'')"
  have early: ?thesis if "sent w' = sent w @ head" "\<forall>q\<in>set head. ?P q" for head
  proof -
    have "add_lines cfg env [] JNull [] w' = (Inr None, w')" by (simp add: return_js_def)
    with that show ?thesis by blast
  qed
  have tok: "?P (token_request cfg)"
    using non_line_urls(1) [of cfg] by (simp add: token_request_def)
  have cust: "?P (customer_request cfg a no)" for a no
    using non_line_urls(2) [of cfg a no] by (simp add: customer_request_def)
  have hdr: "?P (order_request cfg env a c t n)" for a c t n
    using non_line_urls(3) [of cfg env a c t n] by (simp add: order_request_def)
  show ?thesis
  proof (cases "get_prop (req_body req) ''lines''")
    case (Inl err)
    with assms have "w' = w" by (simp add: order_try_def bind_js_def lift_js_def)
    then show ?thesis using early [of "[]"] by simp
  next
    case (Inr lines)
    show ?thesis
    proof (cases "\<not> truthy lines \<or> \<not> is_array lines \<or> elems lines = []")
      case True
      with Inr assms have "w' = w"
        by (auto simp add: order_try_def bind_js_def lift_js_def return_js_def)
      then show ?thesis using early [of "[]"] by simp
    next
      case valid: False
      obtain ra w1 where au: "getBcAuthHeader cfg env w = (ra, w1)"
        by (cases "getBcAuthHeader cfg env w")
      from getBcAuthHeader_sent [OF au] obtain h1 where
        h1: "sent w1 = sent w @ h1" "\<forall>q\<in>set h1. ?P q"
      proof
        assume "sent w1 = sent w"
        then have "sent w1 = sent w @ []" "\<forall>q\<in>set []. ?P q" by simp_all
        then show ?thesis by (rule that)
      next
        assume "sent w1 = sent w @ [token_request cfg]"
        moreover have "\<forall>q\<in>set [token_request cfg]. ?P q" using tok by simp
        ultimately show ?thesis by (rule that)
      qed
      show ?thesis
      proof (cases ra)
        case (Inl err)
        with Inr valid au assms have "w' = w1"
          by (auto simp add: order_try_def bind_js_def lift_js_def)
        with h1 show ?thesis using early [of h1] by simp
      next
        case a: (Inr a)
        let ?no = "customerNo_of cfg (user req)"
        obtain rc w2 where lc: "lookup_customer cfg env a ?no w1 = (rc, w2)"
          by (cases "lookup_customer cfg env a ?no w1")
        from lookup_customer_sent [OF lc] h1
        have h2: "sent w2 = sent w @ (h1 @ [customer_request cfg a ?no])"
          "\<forall>q\<in>set (h1 @ [customer_request cfg a ?no]). ?P q"
          using cust [of a ?no] by simp_all
        have stop2: ?thesis if "w' = w2"
          using that h2 early [of "h1 @ [customer_request cfg a ?no]"] by simp
        show ?thesis
        proof (cases rc)
          case (Inl err)
          with Inr valid au a lc assms have "w' = w2"
            by (auto simp add: order_try_def bind_js_def lift_js_def)
          then show ?thesis by (rule stop2)
        next
          case found: (Inr found)
          show ?thesis
          proof (cases found)
            case (Inl rep)
            with found Inr valid au a lc assms have "w' = w2"
              by (auto simp add: order_try_def bind_js_def lift_js_def return_js_def)
            then show ?thesis by (rule stop2)
          next
            case c: (Inr customerId)
            obtain ro w3 where co: "create_order cfg env a customerId w2 = (ro, w3)"
              by (cases "create_order cfg env a customerId w2")
            let ?hdr = "order_request cfg env a customerId (clock env (clock_reads w2))
                          (clock env (Suc (clock_reads w2)))"
            let ?head = "h1 @ [customer_request cfg a ?no, ?hdr]"
            from create_order_sent [OF co] h2
            have h3: "sent w3 = sent w @ ?head" "\<forall>q\<in>set ?head. ?P q"
              using hdr [of a customerId] by simp_all
            have stop3: ?thesis if "w' = w3"
              using that h3 early [of ?head] by simp
            show ?thesis
            proof (cases ro)
              case (Inl err)
              with c found Inr valid au a lc co assms have "w' = w3"
                by (auto simp add: order_try_def bind_js_def lift_js_def)
              then show ?thesis by (rule stop3)
            next
              case created: (Inr created)
              show ?thesis
              proof (cases created)
                case (Inl rep)
                with created c found Inr valid au a lc co assms have "w' = w3"
                  by (auto simp add: order_try_def bind_js_def lift_js_def return_js_def)
                then show ?thesis by (rule stop3)
              next
                case order: (Inr order)
                with created c found Inr valid au a lc co assms
                have "finish_order cfg env a order (elems lines) w3 = (r, w')"
                  by (auto simp add: order_try_def bind_js_def lift_js_def)
                from finish_order_lines [OF this] h3 show ?thesis by blast
              qed
            qed
          qed
        qed
      qed
    qed
  qed
qed

lemma demo_header:
  "getBcAuthHeader demo_config erp initial_world = (Inr demo_auth, warm_world)"
  by (simp add: getBcAuthHeader_def getAccessToken_def bind_js_def Date_now_def fetch_def json_of_def
      lift_js_def store_token_def cache_hit_def initial_world_def erp_def erp_upstream_def
      demo_env_def token_response_def expiry_def round_double_def expiresInSec_def warm_world_def return_js_def
      demo_auth_def)

lemma demo_lookup:
  "lookup_customer demo_config erp demo_auth (JStr ''CUST-00466'') warm_world =
     (Inr (Inr (JStr ''customer-guid'')),
      warm_world\<lparr>sent := [token_request demo_config, demo_customer_request]\<rparr>)"
  by (simp add: lookup_customer_def bind_js_def fetch_def json_of_def lift_js_def return_js_def
      erp_def erp_upstream_def demo_env_def ok_json_def warm_world_def demo_customer_request_def
      customer_request_def token_request_def)

lemma demo_create:
  "create_order demo_config erp demo_auth (JStr ''customer-guid'')
     (warm_world\<lparr>sent := [token_request demo_config, demo_customer_request]\<rparr>) =
     (Inr (Inr (JObj [(''id'', JStr ''order-guid''), (''number'', JStr ''SO-1'')])),
      warm_world\<lparr>sent := [token_request demo_config, demo_customer_request, demo_order_request],
        clock_reads := 3\<rparr>)"
  by (simp add: create_order_def bind_js_def fetch_def json_of_def lift_js_def return_js_def
      Date_now_def erp_def erp_upstream_def demo_env_def ok_json_def warm_world_def
      demo_order_request_def order_request_def token_request_def item_of_def)

lemma order_try_staged:
  "get_prop (req_body req) ''lines'' = Inr (JArr ls) \<Longrightarrow> ls \<noteq> [] \<Longrightarrow>
   getBcAuthHeader cfg env w = (Inr a, w1) \<Longrightarrow>
   lookup_customer cfg env a (customerNo_of cfg (user req)) w1 = (Inr (Inr cid), w2) \<Longrightarrow>
   create_order cfg env a cid w2 = (Inr (Inr order), w3) \<Longrightarrow>
   order_try cfg env req w = finish_order cfg env a order ls w3"
  by (simp add: order_try_def bind_js_def lift_js_def)

lemma post_order_valid:
  "bearer_token req = Some t \<Longrightarrow> t \<noteq> [] \<Longrightarrow> jwt_verify env t (JWT_SECRET cfg) = Inr p \<Longrightarrow>
   post_order cfg env req w =
     catch_js (cross @ '' Error in /order:'') ''Server error creating order.''
       (order_try cfg env (req\<lparr>user := p\<rparr>)) w"
  by (simp add: post_order_def authMiddleware_valid order_handler_def)

lemma catch_js_sent:
  "catch_js label msg m w = (reply, w') \<Longrightarrow>
   \<exists>r wt. m w = (r, wt) \<and> sent w' = sent wt \<and> (\<forall>rr. r = Inr rr \<longrightarrow> reply = rr)"
  by (auto simp add: catch_js_def split: prod.splits sum.splits)

lemma post_order_run:
  assumes "post_order cfg env req w = (reply, w')"
  shows "\<exists>head a oid ls w3 e wt. sent w3 = sent w @ head \<and>
           (\<forall>q\<in>set head. url q \<noteq> lineUrl cfg \<and> (http_method q = ''GET'' \<or> http_method q = ''POST'')) \<and>
           add_lines cfg env a oid ls w3 = (e, wt) \<and> sent w' = sent wt \<and>
           (e = Inr (Some line_failed) \<longrightarrow> reply = line_failed)"
proof -
  have rejected: ?thesis if "sent w' = sent w"
  proof -
    have "add_lines cfg env [] JNull [] w = (Inr None, w)" by (simp add: return_js_def)
    moreover have "sent w = sent w @ []" by simp
    ultimately show ?thesis using that by (metis empty_iff list.set(1) option.distinct(1) sum.inject(2))
  qed
  show ?thesis
  proof (cases "bearer_token req")
    case None
    with assms have "w' = w" by (simp add: post_order_def authMiddleware_no_token)
    then show ?thesis using rejected by simp
  next
    case (Some t)
    show ?thesis
    proof (cases "jwt_verify env t (JWT_SECRET cfg)")
      case (Inl err)
      with Some assms have "sent w' = sent w"
        by (auto simp add: post_order_def authMiddleware_invalid split: if_splits)
      then show ?thesis by (rule rejected)
    next
      case (Inr p)
      show ?thesis
      proof (cases "t = []")
        case True
        with Some assms have "w' = w" by (simp add: post_order_def authMiddleware_def)
        then show ?thesis using rejected by simp
      next
        case False
        with Some Inr assms
        have "catch_js (cross @ '' Error in /order:'') ''Server error creating order.''
                (order_try cfg env (req\<lparr>user := p\<rparr>)) w = (reply, w')"
          by (simp add: post_order_valid)
        from catch_js_sent [OF this] obtain r wt where
          run: "order_try cfg env (req\<lparr>user := p\<rparr>) w = (r, wt)" and
          s: "sent w' = sent wt" and rr: "\<forall>rr. r = Inr rr \<longrightarrow> reply = rr"
          by blast
        from order_try_run [OF run] obtain head a oid ls w3 e where
          "sent w3 = sent w @ head"
          "\<forall>q\<in>set head. url q \<noteq> lineUrl cfg \<and> (http_method q = ''GET'' \<or> http_method q = ''POST'')"
          "add_lines cfg env a oid ls w3 = (e, wt)"
          "e = Inr (Some line_failed) \<longrightarrow> r = Inr line_failed"
          by blast
        with s rr show ?thesis by blast
      qed
    qed
  qed
qed

lemma demo_session:
  "bearer_token (order_of b) = Some ''jwt''"
  "jwt_verify erp ''jwt'' (JWT_SECRET demo_config) = Inr (session_payload (hd PORTAL_USERS))"
  "customerNo_of demo_config (session_payload (hd PORTAL_USERS)) = JStr ''CUST-00466''"
  by (simp_all add: order_of_def bearer_token_def startsWith_def erp_def demo_env_def
      customerNo_of_def session_payload_def PORTAL_USERS_def)

lemma demo_line_answers:
  "upstream erp hist (demo_line_request ''apple'' 2) = Responded (ok_json (JObj []))"
  "upstream erp hist (demo_line_request ''blocked'' 1) = Responded (refusal ''Item is blocked.'')"
  by (simp_all add: erp_def demo_env_def erp_upstream_def demo_line_request_def line_request_def
      token_request_def item_of_def)

lemma demo_blocked_lines:
  "add_lines demo_config erp demo_auth (JStr ''order-guid'') some_lines
     (warm_world\<lparr>sent := [token_request demo_config, demo_customer_request, demo_order_request],
        clock_reads := 3\<rparr>)
   = (Inr (Some line_failed), blocked_world)"
proof -
  have "line_request demo_config demo_auth (JStr ''order-guid'') (JStr item) (JNum n)
      = demo_line_request item n" for item n
    by (simp add: demo_line_request_def)
  then show ?thesis
    by (simp add: some_lines_def order_line_def add_lines_step demo_line_answers ok_json_def
        refusal_def blocked_world_def warm_world_def del: add_lines.simps(2))
qed

lemma demo_blocked_run:
  "post_order demo_config erp (order_of (JObj [(''lines'', JArr some_lines)])) initial_world
     = (line_failed, blocked_world)"
proof -
  let ?req = "order_of (JObj [(''lines'', JArr some_lines)])"
  let ?p = "session_payload (hd PORTAL_USERS)"
  have l: "get_prop (req_body (?req\<lparr>user := ?p\<rparr>)) ''lines'' = Inr (JArr some_lines)"
    "some_lines \<noteq> []"
    by (simp_all add: order_of_def some_lines_def)
  have c: "customerNo_of demo_config (user (?req\<lparr>user := ?p\<rparr>)) = JStr ''CUST-00466''"
    by (simp add: demo_session)
  have "order_try demo_config erp (?req\<lparr>user := ?p\<rparr>) initial_world
      = finish_order demo_config erp demo_auth
          (JObj [(''id'', JStr ''order-guid''), (''number'', JStr ''SO-1'')]) some_lines
          (warm_world\<lparr>sent := [token_request demo_config, demo_customer_request, demo_order_request],
             clock_reads := 3\<rparr>)"
  proof -
    have "lookup_customer demo_config erp demo_auth
        (customerNo_of demo_config (user (?req\<lparr>user := ?p\<rparr>))) warm_world =
      (Inr (Inr (JStr ''customer-guid'')),
       warm_world\<lparr>sent := [token_request demo_config, demo_customer_request]\<rparr>)"
      using demo_lookup by (simp only: c)
    from order_try_staged [OF l(1) l(2) demo_header this demo_create] show ?thesis .
  qed
  also have "\<dots> = (Inr line_failed, blocked_world)"
    by (simp add: finish_order_def bind_js_def lift_js_def demo_blocked_lines return_js_def)
  finally show ?thesis
    using demo_session by (simp add: post_order_valid catch_js_def)
qed

lemma finish_order_sent:
  "finish_order cfg env a order ls w3 = (r, w') \<Longrightarrow> \<exists>new. sent w' = sent w3 @ new"
proof -
  assume "finish_order cfg env a order ls w3 = (r, w')"
  from finish_order_lines [OF this] obtain ls' oid e where
    "add_lines cfg env a oid ls' w3 = (e, w')"
    by blast
  from add_lines_sent [OF this] show ?thesis by blast
qed

lemma order_try_lookup:
  assumes l: "get_prop (req_body req) ''lines'' = Inr (JArr ls)" "ls \<noteq> []"
    and au: "getBcAuthHeader cfg env w = (Inr a, w1)"
    and run: "order_try cfg env req w = (r, w')"
  shows "\<exists>rest. sent w' = sent w1 @ customer_request cfg a (customerNo_of cfg (user req)) # rest"
proof -
  let ?no = "customerNo_of cfg (user req)"
  obtain rc w2 where lc: "lookup_customer cfg env a ?no w1 = (rc, w2)"
    by (cases "lookup_customer cfg env a ?no w1")
  from lookup_customer_sent [OF lc]
  have s2: "sent w2 = sent w1 @ [customer_request cfg a ?no]" .
  have stop: ?thesis if "\<exists>new. sent w' = sent w2 @ new"
    using that s2 by auto
  show ?thesis
  proof (cases rc)
    case (Inl err)
    with l au lc run have "w' = w2"
      by (auto simp add: order_try_def bind_js_def lift_js_def)
    then show ?thesis using stop by simp
  next
    case found: (Inr found)
    show ?thesis
    proof (cases found)
      case (Inl rep)
      with found l au lc run have "w' = w2"
        by (auto simp add: order_try_def bind_js_def lift_js_def return_js_def)
      then show ?thesis using stop by simp
    next
      case c: (Inr cid)
      obtain ro w3 where co: "create_order cfg env a cid w2 = (ro, w3)"
        by (cases "create_order cfg env a cid w2")
      from create_order_sent [OF co] obtain hdr where s3: "sent w3 = sent w2 @ [hdr]"
        by blast
      show ?thesis
      proof (cases ro)
        case (Inl err)
        with c found l au lc co run have "w' = w3"
          by (auto simp add: order_try_def bind_js_def lift_js_def)
        with s3 show ?thesis using stop by simp
      next
        case created: (Inr created)
        show ?thesis
        proof (cases created)
          case (Inl rep)
          with created c found l au lc co run have "w' = w3"
            by (auto simp add: order_try_def bind_js_def lift_js_def return_js_def)
          with s3 show ?thesis using stop by simp
        next
          case (Inr order)
          with created c found l au lc co
          have "order_try cfg env req w = finish_order cfg env a order ls w3"
            using order_try_staged [of req ls cfg env w a w1 cid w2 order w3] by simp
          with run have "finish_order cfg env a order ls w3 = (r, w')" by simp
          from finish_order_sent [OF this] obtain new where "sent w' = sent w3 @ new"
            by blast
          with s3 have "sent w' = sent w2 @ (hdr # new)" by simp
          then show ?thesis using stop by blast
        qed
      qed
    qed
  qed
qed


lemma customerNo_fallback:
  "\<not> truthy p \<or> (get_prop p ''bcCustomerNo'' = Inr v \<and> \<not> truthy v) \<Longrightarrow>
   customerNo_of cfg p = JStr (env_or (BC_PORTAL_CUSTOMER_NO cfg) ''C00010'')"
  by (auto simp add: customerNo_of_def Let_def)

lemma guest_header:
  "getBcAuthHeader demo_config guest_erp initial_world = (Inr demo_auth, warm_world)"
  by (simp add: getBcAuthHeader_def getAccessToken_def bind_js_def Date_now_def fetch_def json_of_def
      lift_js_def store_token_def cache_hit_def initial_world_def guest_erp_def erp_def
      erp_upstream_def demo_env_def token_response_def expiry_def round_double_def expiresInSec_def warm_world_def
      return_js_def demo_auth_def)

section \<open>The token cache\<close>

text \<open>
  C1. When a cached token is present (truthy, as the program tests it) and the clock
  reads a time strictly before the recorded expiry, \<open>getAccessToken\<close> returns the cached
  token and sends nothing upstream: the world changes in the count of clock readings
  only. Consequently a call that refreshes the cache and a second call before the
  recorded expiry send exactly one exchange between them.
\<close>

theorem cached_token_reused:
  "(truthy (cachedToken w) \<and> cachedTokenExpiresAt w = Some e \<and> clock env (clock_reads w) < e \<longrightarrow>
      getAccessToken cfg env w = (Inr (cachedToken w), w\<lparr>clock_reads := Suc (clock_reads w)\<rparr>))
   \<and> (\<not> cache_hit (clock env (clock_reads w0)) w0 \<and>
        getAccessToken cfg env w0 = (Inr tok, w1) \<and> truthy tok \<and>
        cachedTokenExpiresAt w1 = Some e1 \<and> clock env (clock_reads w1) < e1 \<longrightarrow>
      (\<exists>w2. getAccessToken cfg env w1 = (Inr tok, w2) \<and> sent w2 = sent w0 @ [token_request cfg]))"
proof (intro conjI impI)
  assume "truthy (cachedToken w) \<and> cachedTokenExpiresAt w = Some e \<and> clock env (clock_reads w) < e"
  then have "cache_hit (clock env (clock_reads w)) w"
    by (auto simp add: cache_hit_iff)
  then show "getAccessToken cfg env w = (Inr (cachedToken w), w\<lparr>clock_reads := Suc (clock_reads w)\<rparr>)"
    by (rule getAccessToken_hit)
next
  assume a: "\<not> cache_hit (clock env (clock_reads w0)) w0 \<and>
        getAccessToken cfg env w0 = (Inr tok, w1) \<and> truthy tok \<and>
        cachedTokenExpiresAt w1 = Some e1 \<and> clock env (clock_reads w1) < e1"
  then have first: "getAccessToken cfg env w0 = (Inr tok, w1)" by simp
  have tok: "cachedToken w1 = tok"
    using first by (rule getAccessToken_Inr_cached)
  have s1: "sent w1 = sent w0 @ [token_request cfg]"
    using getAccessToken_sent [OF first] a by simp
  have "cache_hit (clock env (clock_reads w1)) w1"
    using a tok by (auto simp add: cache_hit_iff)
  then have "getAccessToken cfg env w1 = (Inr (cachedToken w1), w1\<lparr>clock_reads := Suc (clock_reads w1)\<rparr>)"
    by (rule getAccessToken_hit)
  with tok s1 show "\<exists>w2. getAccessToken cfg env w1 = (Inr tok, w2) \<and> sent w2 = sent w0 @ [token_request cfg]"
    by simp
qed

theorem cached_token_reused_witness:
  "getAccessToken demo_config (granting 3600) warm_world =
     (Inr (JStr ''T''), warm_world\<lparr>clock_reads := 2\<rparr>)
   \<and> (\<exists>w2. getAccessToken demo_config (granting 3600) warm_world = (Inr (JStr ''T''), w2)
          \<and> sent w2 = [token_request demo_config])"
proof -
  have c: "clock (granting 3600) (clock_reads warm_world) < 3540000"
    by (simp add: granting_def demo_env_def warm_world_def)
  have m: "\<not> cache_hit (clock (granting 3600) (clock_reads initial_world)) initial_world"
    by (simp add: cache_hit_def initial_world_def)
  have w: "truthy (cachedToken warm_world)" "cachedTokenExpiresAt warm_world = Some 3540000"
    "clock_reads warm_world = 1" "sent initial_world = []"
    by (simp_all add: warm_world_def initial_world_def)
  show ?thesis
    using cached_token_reused [of warm_world 3540000 "granting 3600" demo_config initial_world
        "JStr ''T''" warm_world 3540000] c m w first_call_demo
    by (simp add: warm_world_def)
qed

text \<open>
  C2, as stated, has the margin of 60 seconds shorter than the stated lifetime, and the
  expiry at exactly the issuance time plus the lifetime minus the margin. A provider that
  reports a lifetime of 30 seconds gets an expiry 30 seconds before the call; and for a
  reported lifetime of \<open>2\<^sup>5\<^sup>3\<close> seconds the program's arithmetic rounds: the expiry it
  records is 416 milliseconds short of the sum.
\<close>

theorem expiry_formula_counterexample:
  "cachedTokenExpiresAt (snd (getAccessToken demo_config (granting 30) initial_world))
     = Some (- 30000) \<and>
   - 30000 < clock (granting 30) (clock_reads initial_world) \<and>
   cachedTokenExpiresAt
       (snd (getAccessToken demo_config (granting 9007199254740992) initial_world))
     = Some 9007199254740931584 \<and>
   clock (granting 9007199254740992) (clock_reads initial_world)
       + (9007199254740992 - 60) * 1000
     = 9007199254740932000"
proof -
  have "clock (granting n) (clock_reads initial_world) = 0" for n
    by (simp add: granting_def demo_env_def initial_world_def)
  then show ?thesis
    using short_lived_demo huge_lifetime_demo by simp
qed

text \<open>
  C2, as amended. Let a refresh (no cache hit, a successful exchange whose JSON body is
  \<open>data\<close>) get a lifetime reported as a number other than 0 in \<^verbatim>\<open>data.expires_in\<close>, with
  the lifetime less the margin, in milliseconds, and the expiry within the range where
  the program's arithmetic is exact (below \<open>2\<^sup>5\<^sup>3\<close> in magnitude). Then the call stores
  \<^verbatim>\<open>data.access_token\<close> and sets the cached expiry to the clock reading taken at the
  start of the call plus the reported lifetime minus 60 seconds, in milliseconds. That
  expiry is before the end of the lifetime; it is after the call, the margin being
  shorter than the lifetime, exactly when the reported lifetime exceeds 60 seconds. Any
  later call that finds this cache and a clock at or past that expiry sends a second
  exchange.
\<close>

theorem refresh_records_expiry:
  "\<not> cache_hit (clock env (clock_reads w)) w \<and>
   upstream env (sent w) (token_request cfg) = Responded r \<and> res_ok r \<and>
   res_json r = Some data \<and> get_prop data ''access_token'' = Inr tok \<and>
   get_prop data ''expires_in'' = Inr (JNum lifetime) \<and> lifetime \<noteq> 0 \<and>
   \<bar>(lifetime - 60) * 1000\<bar> < 9007199254740992 \<and>
   \<bar>clock env (clock_reads w) + (lifetime - 60) * 1000\<bar> < 9007199254740992 \<longrightarrow>
   (\<exists>w1. getAccessToken cfg env w = (Inr tok, w1) \<and>
      sent w1 = sent w @ [token_request cfg] \<and>
      cachedToken w1 = tok \<and>
      cachedTokenExpiresAt w1 = Some (clock env (clock_reads w) + (lifetime - 60) * 1000) \<and>
      clock env (clock_reads w) + (lifetime - 60) * 1000
        < clock env (clock_reads w) + lifetime * 1000 \<and>
      (clock env (clock_reads w) < clock env (clock_reads w) + (lifetime - 60) * 1000)
        = (60 < lifetime) \<and>
      (\<forall>env' w2. cachedToken w2 = cachedToken w1 \<and>
           cachedTokenExpiresAt w2 = cachedTokenExpiresAt w1 \<and>
           clock env (clock_reads w) + (lifetime - 60) * 1000 \<le> clock env' (clock_reads w2) \<longrightarrow>
         sent (snd (getAccessToken cfg env' w2)) = sent w2 @ [token_request cfg]))"
proof (intro impI)
  assume a: "\<not> cache_hit (clock env (clock_reads w)) w \<and>
   upstream env (sent w) (token_request cfg) = Responded r \<and> res_ok r \<and>
   res_json r = Some data \<and> get_prop data ''access_token'' = Inr tok \<and>
   get_prop data ''expires_in'' = Inr (JNum lifetime) \<and> lifetime \<noteq> 0 \<and>
   \<bar>(lifetime - 60) * 1000\<bar> < 9007199254740992 \<and>
   \<bar>clock env (clock_reads w) + (lifetime - 60) * 1000\<bar> < 9007199254740992"
  let ?now = "clock env (clock_reads w)"
  let ?w1 = "w\<lparr>clock_reads := Suc (clock_reads w), sent := sent w @ [token_request cfg],
        cachedToken := tok, cachedTokenExpiresAt := expiry env ?now (JNum lifetime)\<rparr>"
  have call: "getAccessToken cfg env w = (Inr tok, ?w1)"
    using a getAccessToken_refresh [of env w cfg r data tok "JNum lifetime"] by simp
  have "to_number env (expiresInSec (JNum lifetime)) = Some lifetime"
    using a by (simp add: expiresInSec_def)
  then have ex: "expiry env ?now (JNum lifetime) = Some (?now + (lifetime - 60) * 1000)"
    using a by (intro expiry_exact) simp_all
  have later: "sent (snd (getAccessToken cfg env' w2)) = sent w2 @ [token_request cfg]"
    if "cachedToken w2 = cachedToken ?w1 \<and> cachedTokenExpiresAt w2 = cachedTokenExpiresAt ?w1 \<and>
        ?now + (lifetime - 60) * 1000 \<le> clock env' (clock_reads w2)" for env' w2
  proof -
    have "\<not> cache_hit (clock env' (clock_reads w2)) w2"
      using that ex by (simp add: cache_hit_iff)
    then show ?thesis by (rule getAccessToken_miss_sent)
  qed
  show "\<exists>w1. getAccessToken cfg env w = (Inr tok, w1) \<and>
      sent w1 = sent w @ [token_request cfg] \<and>
      cachedToken w1 = tok \<and>
      cachedTokenExpiresAt w1 = Some (?now + (lifetime - 60) * 1000) \<and>
      ?now + (lifetime - 60) * 1000 < ?now + lifetime * 1000 \<and>
      (?now < ?now + (lifetime - 60) * 1000) = (60 < lifetime) \<and>
      (\<forall>env' w2. cachedToken w2 = cachedToken w1 \<and>
           cachedTokenExpiresAt w2 = cachedTokenExpiresAt w1 \<and>
           ?now + (lifetime - 60) * 1000 \<le> clock env' (clock_reads w2) \<longrightarrow>
         sent (snd (getAccessToken cfg env' w2)) = sent w2 @ [token_request cfg])"
  proof (intro exI [of _ ?w1] conjI allI impI)
    show "getAccessToken cfg env w = (Inr tok, ?w1)" by (rule call)
    show "cachedTokenExpiresAt ?w1 = Some (?now + (lifetime - 60) * 1000)"
      using ex by simp
    show "(?now < ?now + (lifetime - 60) * 1000) = (60 < lifetime)"
      by auto
    show "sent (snd (getAccessToken cfg env' w2)) = sent w2 @ [token_request cfg]"
      if "cachedToken w2 = cachedToken ?w1 \<and> cachedTokenExpiresAt w2 = cachedTokenExpiresAt ?w1 \<and>
        ?now + (lifetime - 60) * 1000 \<le> clock env' (clock_reads w2)" for env' w2
      using that by (rule later)
  qed simp_all
qed

theorem refresh_records_expiry_witness:
  "getAccessToken demo_config (granting 1800) initial_world = (Inr (JStr ''T''), half_hour_world) \<and>
   cachedTokenExpiresAt half_hour_world = Some (0 + (1800 - 60) * 1000) \<and>
   sent (snd (getAccessToken demo_config (granting 1800) half_hour_stale))
     = [token_request demo_config, token_request demo_config]"
proof -
  let ?env = "granting 1800"
  let ?r = "token_response ''T'' 1800"
  let ?d = "JObj [(''access_token'', JStr ''T''), (''expires_in'', JNum 1800)]"
  have h: "\<not> cache_hit (clock ?env (clock_reads initial_world)) initial_world"
    "upstream ?env (sent initial_world) (token_request demo_config) = Responded ?r"
    "res_ok ?r" "res_json ?r = Some ?d" "get_prop ?d ''access_token'' = Inr (JStr ''T'')"
    "get_prop ?d ''expires_in'' = Inr (JNum 1800)" "(1800::int) \<noteq> 0"
    by (simp_all add: cache_hit_def initial_world_def granting_def demo_env_def
        token_response_def)
  have c: "clock ?env (clock_reads initial_world) = 0"
    "clock ?env (clock_reads half_hour_stale) = 1740000"
    "cachedToken half_hour_stale = JStr ''T''"
    "cachedTokenExpiresAt half_hour_stale = Some 1740000"
    "sent half_hour_stale = [token_request demo_config]"
    by (simp_all add: initial_world_def half_hour_stale_def half_hour_world_def granting_def
        demo_env_def)
  have b: "\<bar>(1800 - 60) * 1000\<bar> < (9007199254740992::int)"
    "\<bar>clock ?env (clock_reads initial_world) + (1800 - 60) * 1000\<bar> < 9007199254740992"
    using c(1) by simp_all
  from refresh_records_expiry [of ?env initial_world demo_config ?r ?d "JStr ''T''" 1800] h b
  obtain w1 where w1: "getAccessToken demo_config ?env initial_world = (Inr (JStr ''T''), w1)"
    "cachedTokenExpiresAt w1 = Some (clock ?env (clock_reads initial_world) + (1800 - 60) * 1000)"
    "cachedToken w1 = JStr ''T''"
    "\<forall>env' w2. cachedToken w2 = cachedToken w1 \<and>
           cachedTokenExpiresAt w2 = cachedTokenExpiresAt w1 \<and>
           clock ?env (clock_reads initial_world) + (1800 - 60) * 1000 \<le> clock env' (clock_reads w2) \<longrightarrow>
         sent (snd (getAccessToken demo_config env' w2)) = sent w2 @ [token_request demo_config]"
    by blast
  have "w1 = half_hour_world" using w1(1) half_hour_demo by simp
  moreover have "sent (snd (getAccessToken demo_config ?env half_hour_stale))
      = sent half_hour_stale @ [token_request demo_config]"
    using w1(2,3,4) c by simp
  ultimately show ?thesis using w1 c by simp
qed

text \<open>
  C3, as stated, has the error carry the provider's response body. The program throws
  one fixed \<^verbatim>\<open>Error\<close> whatever the body is: two different bodies, the same error.
  The body goes to the server log instead.
\<close>

theorem token_error_body_counterexample:
  "fst (getAccessToken demo_config (refusing ''invalid_client'') initial_world) = Inl token_failure
   \<and> fst (getAccessToken demo_config (refusing ''AADSTS7000215'') initial_world) = Inl token_failure
   \<and> token_failure = Error
     ''Failed to get access token from Azure. Check BC_TENANT_ID / BC_CLIENT_ID / BC_CLIENT_SECRET.''"
  by (simp add: refused_demo token_failure_def)

text \<open>
  C3, as amended: for every non-success response of the exchange, \<open>getAccessToken\<close>
  fails with that fixed error, appends one line holding the provider's response body to
  the console, and leaves the cached token and the cached expiry as they were; so any
  later call that finds this cache, its clock not behind the failed call's, sends the
  exchange again.
\<close>

theorem failed_exchange_keeps_cache:
  "\<not> cache_hit (clock env (clock_reads w)) w \<and>
   upstream env (sent w) (token_request cfg) = Responded r \<and> \<not> res_ok r \<longrightarrow>
   (\<exists>w1. getAccessToken cfg env w = (Inl token_failure, w1) \<and>
      console w1 = console w @
        [[Text (cross @ '' Error getting access token from Azure:''), Text (res_text r)]] \<and>
      cachedToken w1 = cachedToken w \<and>
      cachedTokenExpiresAt w1 = cachedTokenExpiresAt w \<and>
      (\<forall>env' w2. cachedToken w2 = cachedToken w1 \<and>
           cachedTokenExpiresAt w2 = cachedTokenExpiresAt w1 \<and>
           clock env (clock_reads w) \<le> clock env' (clock_reads w2) \<longrightarrow>
         sent (snd (getAccessToken cfg env' w2)) = sent w2 @ [token_request cfg]))"
proof (intro impI)
  assume a: "\<not> cache_hit (clock env (clock_reads w)) w \<and>
   upstream env (sent w) (token_request cfg) = Responded r \<and> \<not> res_ok r"
  let ?w1 = "w\<lparr>clock_reads := Suc (clock_reads w), sent := sent w @ [token_request cfg],
        console := console w @
          [[Text (cross @ '' Error getting access token from Azure:''), Text (res_text r)]]\<rparr>"
  have call: "getAccessToken cfg env w = (Inl token_failure, ?w1)"
    using a getAccessToken_not_ok [of env w cfg r] by simp
  have retry: "sent (snd (getAccessToken cfg env' w2)) = sent w2 @ [token_request cfg]"
    if "cachedToken w2 = cachedToken ?w1 \<and> cachedTokenExpiresAt w2 = cachedTokenExpiresAt ?w1 \<and>
        clock env (clock_reads w) \<le> clock env' (clock_reads w2)" for env' w2
  proof -
    have "\<not> cache_hit (clock env' (clock_reads w2)) w2"
      using a that cache_miss_later [of "clock env (clock_reads w)" w w2 "clock env' (clock_reads w2)"]
      by simp
    then show ?thesis by (rule getAccessToken_miss_sent)
  qed
  show "\<exists>w1. getAccessToken cfg env w = (Inl token_failure, w1) \<and>
      console w1 = console w @
        [[Text (cross @ '' Error getting access token from Azure:''), Text (res_text r)]] \<and>
      cachedToken w1 = cachedToken w \<and>
      cachedTokenExpiresAt w1 = cachedTokenExpiresAt w \<and>
      (\<forall>env' w2. cachedToken w2 = cachedToken w1 \<and>
           cachedTokenExpiresAt w2 = cachedTokenExpiresAt w1 \<and>
           clock env (clock_reads w) \<le> clock env' (clock_reads w2) \<longrightarrow>
         sent (snd (getAccessToken cfg env' w2)) = sent w2 @ [token_request cfg])"
  proof (intro exI [of _ ?w1] conjI allI impI)
    show "getAccessToken cfg env w = (Inl token_failure, ?w1)" by (rule call)
    show "sent (snd (getAccessToken cfg env' w2)) = sent w2 @ [token_request cfg]"
      if "cachedToken w2 = cachedToken ?w1 \<and> cachedTokenExpiresAt w2 = cachedTokenExpiresAt ?w1 \<and>
        clock env (clock_reads w) \<le> clock env' (clock_reads w2)" for env' w2
      using that by (rule retry)
  qed simp_all
qed

theorem failed_exchange_keeps_cache_witness:
  "getAccessToken demo_config (refusing ''invalid_client'') initial_world
     = (Inl token_failure, refused_world) \<and>
   cachedToken refused_world = JNull \<and> cachedTokenExpiresAt refused_world = Some 0 \<and>
   sent (snd (getAccessToken demo_config (refusing ''invalid_client'') refused_world))
     = [token_request demo_config, token_request demo_config]"
proof -
  let ?env = "refusing ''invalid_client''"
  have h: "\<not> cache_hit (clock ?env (clock_reads initial_world)) initial_world"
    "upstream ?env (sent initial_world) (token_request demo_config)
       = Responded (refusal ''invalid_client'')"
    "\<not> res_ok (refusal ''invalid_client'')"
    by (simp_all add: cache_hit_def initial_world_def refusing_def demo_env_def refusal_def)
  from failed_exchange_keeps_cache [of ?env initial_world demo_config "refusal ''invalid_client''"] h
  obtain w1 where w1: "getAccessToken demo_config ?env initial_world = (Inl token_failure, w1)"
    "cachedToken w1 = cachedToken initial_world"
    "cachedTokenExpiresAt w1 = cachedTokenExpiresAt initial_world"
    "\<forall>env' w2. cachedToken w2 = cachedToken w1 \<and>
           cachedTokenExpiresAt w2 = cachedTokenExpiresAt w1 \<and>
           clock ?env (clock_reads initial_world) \<le> clock env' (clock_reads w2) \<longrightarrow>
         sent (snd (getAccessToken demo_config env' w2)) = sent w2 @ [token_request demo_config]"
    by blast
  have eq: "w1 = refused_world"
    using w1(1) refused_demo [of "''invalid_client''"] by (simp add: refused_world_def)
  have c: "clock ?env (clock_reads initial_world) \<le> clock ?env (clock_reads refused_world)"
    "sent refused_world = [token_request demo_config]"
    "cachedToken initial_world = JNull" "cachedTokenExpiresAt initial_world = Some 0"
    by (simp_all add: refusing_def demo_env_def initial_world_def refused_world_def)
  have "sent (snd (getAccessToken demo_config ?env refused_world))
      = sent refused_world @ [token_request demo_config]"
    using w1(4) eq c(1) by blast
  then show ?thesis using w1 eq c by simp
qed




section \<open>The routes\<close>

text \<open>
  C5. \<^verbatim>\<open>POST /login\<close> with the body
  \<^verbatim>\<open>{email: "Robertos-Rest", password: "Rest1234"}\<close> succeeds: the reply has status 200
  and holds \<^verbatim>\<open>user: {email: "Robertos-Rest"}\<close> and a token, which is what the
  jsonwebtoken library signs, with the session secret and a lifetime of 8 hours, of the
  payload \<^verbatim>\<open>{id: 1, email: "Robertos-Rest", bcCustomerNo: "CUST-00466"}\<close>.
\<close>

theorem login_roberto:
  "login cfg env
     \<lparr>authorization = a,
      req_body = JObj [(''email'', JStr ''Robertos-Rest''), (''password'', JStr ''Rest1234'')],
      user = u\<rparr>
   = Inr (Reply 200 (JObj
       [(''token'', JStr (jwt_sign env
           (JObj [(''id'', JNum 1), (''email'', JStr ''Robertos-Rest''),
                  (''bcCustomerNo'', JStr ''CUST-00466'')])
           (JWT_SECRET cfg) ''8h'')),
        (''user'', JObj [(''email'', JStr ''Robertos-Rest'')])]))"
  by (simp add: login_def PORTAL_USERS_def session_payload_def)

text \<open>
  C7. A request to a protected route (\<^verbatim>\<open>/order\<close>, \<^verbatim>\<open>/orders\<close>) whose
  \<^verbatim>\<open>Authorization\<close> header is absent (or carries no bearer token), or whose bearer
  token the library refuses to verify (a bad signature, an expired token), is answered
  with 401 and a JSON body holding one \<^verbatim>\<open>error\<close> string. The handler is not invoked:
  the middleware's answer and the world it leaves are the same for every handler put
  behind it, and nothing is sent upstream.
\<close>

theorem unauthenticated_rejected:
  "authorization req = None \<or> bearer_token req = None \<or>
   (bearer_token req = Some t \<and> jwt_verify env t (JWT_SECRET cfg) = Inl err) \<longrightarrow>
   (\<exists>msg w'. (\<forall>next. authMiddleware cfg env req next w = (Reply 401 (error_body msg), w')) \<and>
      post_order cfg env req w = (Reply 401 (error_body msg), w') \<and>
      get_orders cfg env req w = (Reply 401 (error_body msg), w') \<and>
      sent w' = sent w \<and> cachedToken w' = cachedToken w \<and>
      cachedTokenExpiresAt w' = cachedTokenExpiresAt w)"
proof (intro impI)
  assume a: "authorization req = None \<or> bearer_token req = None \<or>
   (bearer_token req = Some t \<and> jwt_verify env t (JWT_SECRET cfg) = Inl err)"
  then consider (none) "bearer_token req = None"
    | (bad) "bearer_token req = Some t" "jwt_verify env t (JWT_SECRET cfg) = Inl err"
    using bearer_token_absent [of req] by auto
  then show "\<exists>msg w'. (\<forall>next. authMiddleware cfg env req next w = (Reply 401 (error_body msg), w')) \<and>
      post_order cfg env req w = (Reply 401 (error_body msg), w') \<and>
      get_orders cfg env req w = (Reply 401 (error_body msg), w') \<and>
      sent w' = sent w \<and> cachedToken w' = cachedToken w \<and>
      cachedTokenExpiresAt w' = cachedTokenExpiresAt w"
  proof cases
    case none
    then show ?thesis
      by (intro exI [of _ "''No token provided''"] exI [of _ w])
        (simp add: authMiddleware_no_token post_order_def get_orders_def)
  next
    case bad
    show ?thesis
    proof (cases "t = []")
      case True
      with bad show ?thesis
        by (intro exI [of _ "''No token provided''"] exI [of _ w])
          (simp add: authMiddleware_invalid post_order_def get_orders_def)
    next
      case False
      with bad show ?thesis
        by (intro exI [of _ "''Invalid or expired token''"]
            exI [of _ "w\<lparr>console := console w @ [[Text ''JWT error:'', Thrown err]]\<rparr>"])
          (simp add: authMiddleware_invalid post_order_def get_orders_def)
    qed
  qed
qed

theorem unauthenticated_rejected_witness:
  "get_orders demo_config (granting 3600) anonymous initial_world
     = (Reply 401 (error_body ''No token provided''), initial_world) \<and>
   post_order demo_config (granting 3600) forged initial_world
     = (Reply 401 (error_body ''Invalid or expired token''),
        initial_world\<lparr>console := [[Text ''JWT error:'', Thrown (JwtError ''invalid signature'')]]\<rparr>)"
proof -
  let ?env = "granting 3600"
  have 1: "authorization anonymous = None" by (simp add: anonymous_def)
  have 2: "bearer_token forged = Some ''forged''"
    "jwt_verify ?env ''forged'' (JWT_SECRET demo_config) = Inl (JwtError ''invalid signature'')"
    by (simp_all add: forged_def bearer_token_def startsWith_def granting_def demo_env_def)
  from unauthenticated_rejected [of anonymous "''x''" ?env demo_config TypeError initial_world] 1
  obtain msg w' where
    "get_orders demo_config ?env anonymous initial_world = (Reply 401 (error_body msg), w')"
    by blast
  moreover have "get_orders demo_config ?env anonymous initial_world
     = (Reply 401 (error_body ''No token provided''), initial_world)"
    using 1 by (simp add: get_orders_def authMiddleware_no_token bearer_token_absent)
  moreover
  from unauthenticated_rejected [of forged "''forged''" ?env demo_config
      "JwtError ''invalid signature''" initial_world] 2
  obtain msg2 w2 where
    "post_order demo_config ?env forged initial_world = (Reply 401 (error_body msg2), w2)"
    by blast
  moreover have "post_order demo_config ?env forged initial_world
     = (Reply 401 (error_body ''Invalid or expired token''),
        initial_world\<lparr>console := [[Text ''JWT error:'', Thrown (JwtError ''invalid signature'')]]\<rparr>)"
    using 2 by (simp add: post_order_def authMiddleware_invalid initial_world_def)
  ultimately show ?thesis by simp
qed

text \<open>
  C6. A \<^verbatim>\<open>POST /order\<close> request with a valid session token whose body has a \<open>lines\<close>
  field that is missing (\<^verbatim>\<open>undefined\<close>), not an array, or an empty array is answered
  with 400, and the world is left exactly as it was: no request goes to the identity
  provider or to the ERP API, nothing is logged, the token cache is untouched.
\<close>

theorem order_without_lines:
  "bearer_token req = Some t \<and> t \<noteq> [] \<and> jwt_verify env t (JWT_SECRET cfg) = Inr p \<and>
   get_prop (req_body req) ''lines'' = Inr lines \<and> (\<not> is_array lines \<or> lines = JArr []) \<longrightarrow>
   post_order cfg env req w = (Reply 400 (error_body ''No order lines provided.''), w)"
proof (intro impI)
  assume a: "bearer_token req = Some t \<and> t \<noteq> [] \<and> jwt_verify env t (JWT_SECRET cfg) = Inr p \<and>
   get_prop (req_body req) ''lines'' = Inr lines \<and> (\<not> is_array lines \<or> lines = JArr [])"
  then have "post_order cfg env req w = order_handler cfg env (req\<lparr>user := p\<rparr>) w"
    by (simp add: post_order_def authMiddleware_valid)
  moreover have "order_try cfg env (req\<lparr>user := p\<rparr>) w
      = (Inr (Reply 400 (error_body ''No order lines provided.'')), w)"
    using a order_try_no_lines [of "req\<lparr>user := p\<rparr>" lines cfg env w] by simp
  ultimately show "post_order cfg env req w = (Reply 400 (error_body ''No order lines provided.''), w)"
    by (simp add: order_handler_def catch_js_def)
qed

theorem order_without_lines_witness:
  "post_order demo_config (granting 3600) (order_of (JObj [])) initial_world
     = (Reply 400 (error_body ''No order lines provided.''), initial_world) \<and>
   post_order demo_config (granting 3600) (order_of (JObj [(''lines'', JStr ''2 apples'')])) initial_world
     = (Reply 400 (error_body ''No order lines provided.''), initial_world) \<and>
   post_order demo_config (granting 3600) (order_of (JObj [(''lines'', JArr [])])) initial_world
     = (Reply 400 (error_body ''No order lines provided.''), initial_world)"
proof -
  let ?env = "granting 3600"
  let ?p = "session_payload (hd PORTAL_USERS)"
  have t: "bearer_token (order_of b) = Some ''jwt''" "''jwt'' \<noteq> []"
    "jwt_verify ?env ''jwt'' (JWT_SECRET demo_config) = Inr ?p" for b
    by (simp_all add: order_of_def bearer_token_def startsWith_def granting_def demo_env_def)
  have b: "get_prop (req_body (order_of (JObj []))) ''lines'' = Inr JUndefined"
    "get_prop (req_body (order_of (JObj [(''lines'', JStr ''2 apples'')]))) ''lines'' = Inr (JStr ''2 apples'')"
    "get_prop (req_body (order_of (JObj [(''lines'', JArr [])]))) ''lines'' = Inr (JArr [])"
    by (simp_all add: order_of_def)
  show ?thesis
    using order_without_lines [of "order_of (JObj [])" "''jwt''" ?env demo_config ?p JUndefined initial_world]
      order_without_lines [of "order_of (JObj [(''lines'', JStr ''2 apples'')])" "''jwt''" ?env demo_config ?p
        "JStr ''2 apples''" initial_world]
      order_without_lines [of "order_of (JObj [(''lines'', JArr [])])" "''jwt''" ?env demo_config ?p
        "JArr []" initial_world]
      t b
    by simp
qed

text \<open>
  C8. Take any run of \<^verbatim>\<open>POST /order\<close> and any request of that run to the order-line
  endpoint that got a non-OK response. Then the route's reply is 500 with the fixed
  message, and that request is the last one the run sent: nothing follows it, no retry,
  no clean-up. Every request of the run up to there is a GET or a POST, so the run
  deletes nothing, and the order header and the lines created before stay in the remote
  system.
\<close>

theorem failed_line_ends_order:
  "post_order cfg env req w = (reply, w') \<and> sent w' = sent w @ pre @ rq # post \<and>
   url rq = lineUrl cfg \<and> upstream env (sent w @ pre) rq = Responded res \<and> \<not> res_ok res \<longrightarrow>
   reply = Reply 500 (error_body ''Failed to add an order line in BC.'') \<and> post = [] \<and>
   (\<forall>q\<in>set (pre @ [rq]). http_method q = ''GET'' \<or> http_method q = ''POST'')"
proof (intro impI)
  assume a: "post_order cfg env req w = (reply, w') \<and> sent w' = sent w @ pre @ rq # post \<and>
   url rq = lineUrl cfg \<and> upstream env (sent w @ pre) rq = Responded res \<and> \<not> res_ok res"
  then have run: "post_order cfg env req w = (reply, w')" by simp
  from post_order_run [OF run] obtain head au oid ls w3 e wt where
    h: "sent w3 = sent w @ head"
    "\<forall>q\<in>set head. url q \<noteq> lineUrl cfg \<and> (http_method q = ''GET'' \<or> http_method q = ''POST'')"
    and al: "add_lines cfg env au oid ls w3 = (e, wt)" and s: "sent w' = sent wt"
    and f: "e = Inr (Some line_failed) \<longrightarrow> reply = line_failed"
    by blast
  from add_lines_sent [OF al] obtain new where
    new: "sent wt = sent w3 @ new" "\<forall>q\<in>set new. http_method q = ''POST'' \<and> url q = lineUrl cfg"
    by blast
  from a s new(1) h(1) have "head @ new = pre @ rq # post" by simp
  moreover have "\<forall>q\<in>set head. \<not> (url q = lineUrl cfg)" using h(2) by simp
  moreover have "url rq = lineUrl cfg" using a by simp
  ultimately obtain pre' where pre': "pre = head @ pre'" "new = pre' @ rq # post"
    using split_after_head [of head new pre rq post "\<lambda>q. url q = lineUrl cfg"] by blast
  have 1: "sent wt = sent w3 @ pre' @ rq # post" using new(1) pre'(2) by simp
  have 2: "upstream env (sent w3 @ pre') rq = Responded res" using a h(1) pre'(1) by simp
  have 3: "\<not> res_ok res" using a by simp
  from add_lines_failure [OF al 1 2 3] have "post = []" "e = Inr (Some line_failed)" by simp_all
  with f have "reply = line_failed" by simp
  moreover have "\<forall>q\<in>set (pre @ [rq]). http_method q = ''GET'' \<or> http_method q = ''POST''"
    using h(2) new(2) pre' by auto
  ultimately show "reply = Reply 500 (error_body ''Failed to add an order line in BC.'') \<and> post = [] \<and>
     (\<forall>q\<in>set (pre @ [rq]). http_method q = ''GET'' \<or> http_method q = ''POST'')"
    using \<open>post = []\<close> by (simp add: line_failed_def)
qed

theorem failed_line_ends_order_witness:
  "post_order demo_config erp (order_of (JObj [(''lines'', JArr some_lines)])) initial_world
     = (Reply 500 (error_body ''Failed to add an order line in BC.''), blocked_world) \<and>
   sent blocked_world =
     [token_request demo_config, demo_customer_request, demo_order_request,
      demo_line_request ''apple'' 2] @ [demo_line_request ''blocked'' 1] \<and>
   upstream erp
     [token_request demo_config, demo_customer_request, demo_order_request,
      demo_line_request ''apple'' 2] (demo_line_request ''blocked'' 1)
     = Responded (refusal ''Item is blocked.'')"
proof -
  let ?req = "order_of (JObj [(''lines'', JArr some_lines)])"
  let ?pre = "[token_request demo_config, demo_customer_request, demo_order_request,
      demo_line_request ''apple'' 2]"
  let ?rq = "demo_line_request ''blocked'' 1"
  have h: "sent blocked_world = sent initial_world @ ?pre @ ?rq # []"
    "url ?rq = lineUrl demo_config"
    "\<not> res_ok (refusal ''Item is blocked.'')"
    by (simp_all add: blocked_world_def initial_world_def demo_line_request_def line_request_def
        refusal_def)
  have u: "upstream erp (sent initial_world @ ?pre) ?rq = Responded (refusal ''Item is blocked.'')"
    by (simp add: initial_world_def demo_line_answers)
  from failed_line_ends_order [of demo_config erp ?req initial_world line_failed blocked_world
      ?pre ?rq "[]" "refusal ''Item is blocked.''"] demo_blocked_run h u
  have "line_failed = Reply 500 (error_body ''Failed to add an order line in BC.'')"
    by simp
  with demo_blocked_run h u show ?thesis
    by (simp add: initial_world_def)
qed



text \<open>
  C10. When the verified session payload has no truthy \<open>bcCustomerNo\<close>, the customer
  number is the environment variable \<^verbatim>\<open>BC_PORTAL_CUSTOMER_NO\<close>, or \<^verbatim>\<open>"C00010"\<close> when
  that is unset (or empty); and the lookup goes ahead with it: in every run of
  \<^verbatim>\<open>POST /order\<close> with such a payload, order lines and an access token, the request sent
  next is a GET of the customers of the company, filtered by \<^verbatim>\<open>number eq '...'\<close> with
  that number between the quotes.
\<close>

theorem fallback_customer_number:
  "\<not> truthy p \<or> (get_prop p ''bcCustomerNo'' = Inr v \<and> \<not> truthy v) \<longrightarrow>
   customerNo_of cfg p =
     JStr (case BC_PORTAL_CUSTOMER_NO cfg of
             None \<Rightarrow> ''C00010'' | Some s \<Rightarrow> if s = [] then ''C00010'' else s) \<and>
   (bearer_token req = Some t \<and> t \<noteq> [] \<and> jwt_verify env t (JWT_SECRET cfg) = Inr p \<and>
    get_prop (req_body req) ''lines'' = Inr (JArr ls) \<and> ls \<noteq> [] \<and>
    getBcAuthHeader cfg env w = (Inr a, w1) \<and> post_order cfg env req w = (reply, w') \<longrightarrow>
    (\<exists>rq rest. sent w' = sent w1 @ rq # rest \<and>
       http_method rq = ''GET'' \<and>
       url rq =
         ''https://api.businesscentral.dynamics.com/v2.0/'' @ tmpl (BC_TENANT_ID cfg) @ ''/''
           @ tmpl (BC_ENV cfg) @ ''/api/v2.0/companies('' @ tmpl (BC_COMPANY_ID cfg)
           @ '')/customers?$filter=number eq '' @ [CHR 0x27]
           @ (case BC_PORTAL_CUSTOMER_NO cfg of
                None \<Rightarrow> ''C00010'' | Some s \<Rightarrow> if s = [] then ''C00010'' else s)
           @ [CHR 0x27] \<and>
       headers rq = [(''Authorization'', a), (''Content-Type'', ''application/json'')] \<and>
       body rq = NoBody))"
proof (intro impI conjI)
  assume f: "\<not> truthy p \<or> (get_prop p ''bcCustomerNo'' = Inr v \<and> \<not> truthy v)"
  let ?n = "case BC_PORTAL_CUSTOMER_NO cfg of
             None \<Rightarrow> ''C00010'' | Some s \<Rightarrow> if s = [] then ''C00010'' else s"
  from f have "customerNo_of cfg p = JStr (env_or (BC_PORTAL_CUSTOMER_NO cfg) ''C00010'')"
    by (rule customerNo_fallback)
  then show no: "customerNo_of cfg p = JStr ?n"
    by (simp add: env_or_def)
  assume h: "bearer_token req = Some t \<and> t \<noteq> [] \<and> jwt_verify env t (JWT_SECRET cfg) = Inr p \<and>
    get_prop (req_body req) ''lines'' = Inr (JArr ls) \<and> ls \<noteq> [] \<and>
    getBcAuthHeader cfg env w = (Inr a, w1) \<and> post_order cfg env req w = (reply, w')"
  let ?req = "req\<lparr>user := p\<rparr>"
  have "catch_js (cross @ '' Error in /order:'') ''Server error creating order.''
      (order_try cfg env ?req) w = (reply, w')"
    using h post_order_valid [of req t env cfg p w] by simp
  from catch_js_sent [OF this] obtain r wt where
    run: "order_try cfg env ?req w = (r, wt)" and s: "sent w' = sent wt"
    by blast
  have l: "get_prop (req_body ?req) ''lines'' = Inr (JArr ls)" "ls \<noteq> []"
    and au: "getBcAuthHeader cfg env w = (Inr a, w1)"
    using h by simp_all
  from order_try_lookup [OF l au run] obtain rest where
    "sent wt = sent w1 @ customer_request cfg a (customerNo_of cfg (user ?req)) # rest"
    by blast
  with s no have sent: "sent w' = sent w1 @ customer_request cfg a (JStr ?n) # rest"
    by simp
  have "http_method (customer_request cfg a (JStr ?n)) = ''GET''"
    "headers (customer_request cfg a (JStr ?n))
       = [(''Authorization'', a), (''Content-Type'', ''application/json'')]"
    "body (customer_request cfg a (JStr ?n)) = NoBody"
    by (simp_all add: customer_request_def bc_headers_def)
  moreover have "url (customer_request cfg a (JStr ?n)) =
         ''https://api.businesscentral.dynamics.com/v2.0/'' @ tmpl (BC_TENANT_ID cfg) @ ''/''
           @ tmpl (BC_ENV cfg) @ ''/api/v2.0/companies('' @ tmpl (BC_COMPANY_ID cfg)
           @ '')/customers?$filter=number eq '' @ [CHR 0x27] @ ?n @ [CHR 0x27]"
    by (simp add: customer_request_def COMPANY_URL_def BC_BASE_URL_def)
  ultimately show "\<exists>rq rest. sent w' = sent w1 @ rq # rest \<and>
       http_method rq = ''GET'' \<and>
       url rq =
         ''https://api.businesscentral.dynamics.com/v2.0/'' @ tmpl (BC_TENANT_ID cfg) @ ''/''
           @ tmpl (BC_ENV cfg) @ ''/api/v2.0/companies('' @ tmpl (BC_COMPANY_ID cfg)
           @ '')/customers?$filter=number eq '' @ [CHR 0x27] @ ?n @ [CHR 0x27] \<and>
       headers rq = [(''Authorization'', a), (''Content-Type'', ''application/json'')] \<and>
       body rq = NoBody"
    using sent by blast
qed

theorem fallback_customer_number_witness:
  "customerNo_of demo_config guest_payload = JStr ''C00010'' \<and>
   (\<exists>rq rest. sent (snd (post_order demo_config guest_erp
                        (order_of (JObj [(''lines'', JArr idle_lines)])) initial_world))
        = [token_request demo_config] @ rq # rest \<and>
      http_method rq = ''GET'' \<and>
      url rq =
        ''https://api.businesscentral.dynamics.com/v2.0/tenant/Production/api/v2.0/companies(company)/customers?$filter=number eq ''
          @ [CHR 0x27] @ ''C00010'' @ [CHR 0x27])"
proof -
  let ?req = "order_of (JObj [(''lines'', JArr idle_lines)])"
  let ?run = "post_order demo_config guest_erp ?req initial_world"
  have p: "get_prop guest_payload ''bcCustomerNo'' = Inr JUndefined" "\<not> truthy JUndefined"
    by (simp_all add: guest_payload_def)
  have b: "bearer_token ?req = Some ''jwt''"
    by (rule demo_session(1))
  have h: "''jwt'' \<noteq> []"
    "jwt_verify guest_erp ''jwt'' (JWT_SECRET demo_config) = Inr guest_payload"
    "get_prop (req_body ?req) ''lines'' = Inr (JArr idle_lines)" "idle_lines \<noteq> []"
    "?run = (fst ?run, snd ?run)"
    by (simp_all add: guest_erp_def order_of_def idle_lines_def)
  have c: "BC_PORTAL_CUSTOMER_NO demo_config = None" "sent warm_world = [token_request demo_config]"
    "tmpl (BC_TENANT_ID demo_config) = ''tenant''" "tmpl (BC_ENV demo_config) = ''Production''"
    "tmpl (BC_COMPANY_ID demo_config) = ''company''"
    by (simp_all add: demo_config_def warm_world_def tmpl_def)
  from fallback_customer_number [of guest_payload JUndefined demo_config ?req "''jwt''" guest_erp
      idle_lines initial_world demo_auth warm_world "fst ?run" "snd ?run"] p b h guest_header
  have "customerNo_of demo_config guest_payload =
     JStr (case BC_PORTAL_CUSTOMER_NO demo_config of
             None \<Rightarrow> ''C00010'' | Some s \<Rightarrow> if s = [] then ''C00010'' else s) \<and>
    (\<exists>rq rest. sent (snd ?run) = sent warm_world @ rq # rest \<and>
       http_method rq = ''GET'' \<and>
       url rq =
         ''https://api.businesscentral.dynamics.com/v2.0/'' @ tmpl (BC_TENANT_ID demo_config) @ ''/''
           @ tmpl (BC_ENV demo_config) @ ''/api/v2.0/companies('' @ tmpl (BC_COMPANY_ID demo_config)
           @ '')/customers?$filter=number eq '' @ [CHR 0x27]
           @ (case BC_PORTAL_CUSTOMER_NO demo_config of
                None \<Rightarrow> ''C00010'' | Some s \<Rightarrow> if s = [] then ''C00010'' else s)
           @ [CHR 0x27] \<and>
       headers rq = [(''Authorization'', demo_auth), (''Content-Type'', ''application/json'')] \<and>
       body rq = NoBody)"
    by blast
  then show ?thesis
    by (auto simp add: c)
qed

end
